theory Spec2Isabelle
  imports
    Complex_Main
    "HOL-Library.Char_ord"
    "HOL-Library.List_Lexorder"
    "HOL-Library.Log_Nat"
    "HOL-Library.Product_Lexorder"
begin

section \<open>Data model (shared/schema.ts)\<close>

text \<open>
  The tables of the relational store are lists of rows; a query is a function of the
  stored state. Conventions of the embedding:
  \<^item> \<open>varchar\<close>/\<open>text\<close> columns are \<open>string\<close>, compared in the lexicographic order of
    their characters (the order of \<open>YYYY-MM-DD\<close> date strings);
  \<^item> a \<open>decimal(10,2)\<close> amount is the rational number its decimal string denotes; the
    arithmetic of SQL on it (\<open>SUM\<close>, \<open>-\<close>) is exact. Where the program turns amounts
    into JavaScript numbers (\<open>parseFloat\<close>, \<open>Number\<close>) the arithmetic is that of
    doubles, modelled below with the rounding that a \<open>numeric(10,2)\<close> column applies to
    what is inserted;
  \<^item> a \<open>timestamp\<close> is a calendar date (\<open>YYYY-MM-DD\<close>) with the milliseconds elapsed on
    that day, ordered lexicographically, so that SQL's \<open>DATE(ts)\<close> is the first component;
  \<^item> a nullable column is an \<open>option\<close>, \<open>None\<close> being SQL \<open>NULL\<close>. The columns
    \<open>created_at\<close>/\<open>updated_at\<close> of stock entries and shifts are filled by
    \<open>defaultNow()\<close> and by the updates of storage.ts; they are read as plain timestamps,
    a \<open>NULL\<close> in them is not modelled.
\<close>

type_synonym timestamp = "string \<times> nat"

definition DATE :: "timestamp \<Rightarrow> string" where
  "DATE ts = fst ts"

record retailOutlet =
  outlet_id :: string
  outlet_ownerId :: string
  outlet_name :: string

record tank =
  tank_id :: string
  tank_retailOutletId :: string
  tank_productId :: string
  tank_tankNumber :: string
  tank_capacity :: rat
  tank_length :: rat
  tank_diameter :: rat
  tank_isActive :: "bool option"
  tank_createdAt :: "timestamp option"
  tank_updatedAt :: "timestamp option"

record product =
  product_id :: string
  product_retailOutletId :: string
  product_name :: string
  product_pricePerLiter :: rat
  product_isActive :: "bool option"

record nozzle =
  nozzle_id :: string
  nozzle_dispensingUnitId :: string
  nozzle_tankId :: string
  nozzle_nozzleNumber :: int
  nozzle_isActive :: "bool option"

record staff =
  staff_id :: string
  staff_retailOutletId :: string
  staff_name :: string
  staff_role :: string
  staff_isActive :: "bool option"

record nozzleReading =
  nr_id :: string
  nr_retailOutletId :: string
  nr_nozzleId :: string
  nr_attendantId :: string
  nr_shiftType :: string
  nr_shiftDate :: string
  nr_previousReading :: rat
  nr_currentReading :: rat
  nr_testing :: "rat option"
  nr_totalSale :: rat
  nr_cashSales :: "rat option"
  nr_creditSales :: "rat option"
  nr_upiSales :: "rat option"
  nr_cardSales :: "rat option"
  nr_createdAt :: "timestamp option"

record stockEntry =
  se_id :: string
  se_retailOutletId :: string
  se_tankId :: string
  se_managerId :: string
  se_shiftType :: string
  se_shiftDate :: string
  se_openingStock :: rat
  se_receipt :: rat
  se_invoiceValue :: rat
  se_createdAt :: timestamp

record shiftSales =
  ss_id :: string
  ss_retailOutletId :: string
  ss_staffId :: string
  ss_shiftDate :: timestamp
  ss_shiftType :: string
  ss_startTime :: timestamp
  ss_endTime :: timestamp
  ss_cashSales :: "rat option"
  ss_creditSales :: "rat option"
  ss_upiSales :: "rat option"
  ss_cardSales :: "rat option"
  ss_totalSales :: "rat option"
  ss_notes :: "string option"
  ss_createdAt :: "timestamp option"

text \<open>One element of the \<open>product_rates\<close> JSON list of a shift.\<close>

record productRate =
  rate_productId :: string
  rate_productName :: string
  rate_rate :: rat

record shift =
  shift_id :: string
  shift_managerId :: string
  shift_shiftType :: string
  shift_shiftDate :: "string option"
  shift_status :: string
  shift_productRates :: "productRate list option"
  shift_createdAt :: timestamp
  shift_updatedAt :: timestamp

text \<open>The stored state: one list of rows per table, in the store's own row order.\<close>

record db =
  retailOutlets :: "retailOutlet list"
  tanks :: "tank list"
  products :: "product list"
  nozzles :: "nozzle list"
  staffs :: "staff list"
  nozzleReadings :: "nozzleReading list"
  stockEntries :: "stockEntry list"
  shiftSalesRows :: "shiftSales list"
  shifts :: "shift list"

section \<open>The JavaScript Date and the clock\<close>

text \<open>
  A \<open>Date\<close> as its local-time getters show it: \<open>getFullYear()\<close>, \<open>getMonth()\<close>
  (0 for January), \<open>getDate()\<close> (the day of the month) and the milliseconds elapsed
  on that day. The server runs in one time zone without daylight saving; years are 1 to
  9999.
\<close>

record jsDate =
  date_year :: nat
  date_month :: nat
  date_day :: nat
  date_millis :: nat

definition leapYear :: "nat \<Rightarrow> bool" where
  "leapYear y \<longleftrightarrow> y mod 4 = 0 \<and> (y mod 100 \<noteq> 0 \<or> y mod 400 = 0)"

definition daysInMonth :: "nat \<Rightarrow> nat \<Rightarrow> nat" where
  "daysInMonth y m =
     (if m = 1 then (if leapYear y then 29 else 28)
      else if m = 3 \<or> m = 5 \<or> m = 8 \<or> m = 10 then 30 else 31)"

definition nextDay :: "jsDate \<Rightarrow> jsDate" where
  "nextDay dt =
     (if date_day dt < daysInMonth (date_year dt) (date_month dt)
      then dt \<lparr> date_day := date_day dt + 1 \<rparr>
      else if date_month dt < 11
      then dt \<lparr> date_month := date_month dt + 1, date_day := 1 \<rparr>
      else dt \<lparr> date_year := date_year dt + 1, date_month := 0, date_day := 1 \<rparr>)"

definition previousDay :: "jsDate \<Rightarrow> jsDate" where
  "previousDay dt =
     (if 1 < date_day dt
      then dt \<lparr> date_day := date_day dt - 1 \<rparr>
      else if 0 < date_month dt
      then dt \<lparr> date_month := date_month dt - 1,
                date_day := daysInMonth (date_year dt) (date_month dt - 1) \<rparr>
      else dt \<lparr> date_year := date_year dt - 1, date_month := 11, date_day := 31 \<rparr>)"

text \<open>
  \<open>setDate(n)\<close> and \<open>setMonth(m)\<close> take any integer (ECMAScript \<open>MakeDay\<close>): day
  \<open>n\<close> of a month is the day \<open>n - 1\<close> days after its first day, month \<open>m\<close> of a
  year is the month \<open>m\<close> months after its January. \<open>setMonth\<close> keeps the day of the
  month as a day number of the new month: the 31st of a month of 28 days is the 3rd of the
  month after. The time of the day is kept.
\<close>

definition setDate :: "jsDate \<Rightarrow> int \<Rightarrow> jsDate" where
  "setDate dt n =
     (if 1 \<le> n then (nextDay ^^ nat (n - 1)) (dt \<lparr> date_day := 1 \<rparr>)
      else (previousDay ^^ nat (1 - n)) (dt \<lparr> date_day := 1 \<rparr>))"

definition setMonth :: "jsDate \<Rightarrow> int \<Rightarrow> jsDate" where
  "setMonth dt m =
     (nextDay ^^ (date_day dt - 1))
       (dt \<lparr> date_year := nat (int (date_year dt) + m div 12), date_month := nat (m mod 12),
              date_day := 1 \<rparr>)"

text \<open>
  A \<open>Date\<close> passed as a query parameter arrives as its local date and time and is
  compared with a \<open>timestamp\<close> column as such.
\<close>

definition digit :: "nat \<Rightarrow> char" where
  "digit n = ''0123456789'' ! (n mod 10)"

definition isoDate :: "jsDate \<Rightarrow> string" where
  "isoDate dt =
     [digit (date_year dt div 1000), digit (date_year dt div 100), digit (date_year dt div 10),
      digit (date_year dt)] @ ''-''
     @ [digit ((date_month dt + 1) div 10), digit (date_month dt + 1)] @ ''-''
     @ [digit (date_day dt div 10), digit (date_day dt)]"

definition toTimestamp :: "jsDate \<Rightarrow> timestamp" where
  "toTimestamp dt = (isoDate dt, date_millis dt)"

text \<open>
  What a call reads from the wall clock: \<open>now\<close> is the \<open>new Date()\<close> stored in
  \<open>createdAt\<close>/\<open>updatedAt\<close>, \<open>today\<close> is
  \<open>new Date().toISOString().split('T')[0]\<close>, and \<open>newDate\<close> is the \<open>new Date()\<close>
  that \<open>getShiftSalesStats\<close> computes its windows from.
\<close>

record clock =
  now :: timestamp
  today :: string
  newDate :: jsDate

section \<open>The SQL fragment used by storage.ts\<close>

text \<open>\<open>INNER JOIN ... ON\<close>: every pair of rows that satisfies the join condition.\<close>

definition innerJoin :: "'a list \<Rightarrow> 'b list \<Rightarrow> ('a \<Rightarrow> 'b \<Rightarrow> bool) \<Rightarrow> ('a \<times> 'b) list" where
  "innerJoin xs ys on = concat (map (\<lambda>x. map (Pair x) (filter (on x) ys)) xs)"

text \<open>
  \<open>ORDER BY\<close>: insertion sort under the comparison of the clause; rows that the clause
  does not tell apart keep the order they arrive in (SQL leaves their order open).
\<close>

fun insertBy :: "('a \<Rightarrow> 'a \<Rightarrow> bool) \<Rightarrow> 'a \<Rightarrow> 'a list \<Rightarrow> 'a list" where
  "insertBy le x [] = [x]"
| "insertBy le x (y # ys) = (if le x y then x # y # ys else y # insertBy le x ys)"

definition orderBy :: "('a \<Rightarrow> 'a \<Rightarrow> bool) \<Rightarrow> 'a list \<Rightarrow> 'a list" where
  "orderBy le xs = foldr (insertBy le) xs []"

text \<open>\<open>SUM\<close> skips \<open>NULL\<close>s and is \<open>NULL\<close> when no non-null value went in.\<close>

fun sqlSum :: "rat option list \<Rightarrow> rat option" where
  "sqlSum [] = None"
| "sqlSum (None # vs) = sqlSum vs"
| "sqlSum (Some v # vs) = (case sqlSum vs of None \<Rightarrow> Some v | Some s \<Rightarrow> Some (v + s))"

definition COALESCE :: "'a option \<Rightarrow> 'a \<Rightarrow> 'a" where
  "COALESCE v d = (case v of None \<Rightarrow> d | Some x \<Rightarrow> x)"

text \<open>
  \<open>s || fallback\<close> on a string that may be undefined: the fallback is taken when the
  left operand is undefined or the empty string.
\<close>

definition orElse :: "string option \<Rightarrow> string \<Rightarrow> string" where
  "orElse s fallback = (case s of None \<Rightarrow> fallback | Some v \<Rightarrow> if v = [] then fallback else v)"

text \<open>
  \<open>parseFloat(d || "0")\<close> and \<open>d || 0\<close> on a decimal that may be undefined/null: a
  decimal string is never empty, so only the missing value takes the fallback.
\<close>

definition orZero :: "rat option \<Rightarrow> rat" where
  "orZero d = (case d of None \<Rightarrow> 0 | Some v \<Rightarrow> v)"

section \<open>Stock reconciliation: getTanksByRetailOutletId\<close>

record tankWithProduct =
  tp_id :: string
  tp_retailOutletId :: string
  tp_productId :: string
  tp_tankNumber :: string
  tp_capacity :: rat
  tp_length :: rat
  tp_diameter :: rat
  tp_isActive :: "bool option"
  tp_createdAt :: "timestamp option"
  tp_updatedAt :: "timestamp option"
  tp_productName :: string

record tankWithStock = tankWithProduct +
  currentStock :: rat

definition selectTank :: "tank \<times> product \<Rightarrow> tankWithProduct" where
  "selectTank row = (case row of (t, p) \<Rightarrow>
     \<lparr> tp_id = tank_id t, tp_retailOutletId = tank_retailOutletId t,
       tp_productId = tank_productId t, tp_tankNumber = tank_tankNumber t,
       tp_capacity = tank_capacity t, tp_length = tank_length t,
       tp_diameter = tank_diameter t, tp_isActive = tank_isActive t,
       tp_createdAt = tank_createdAt t, tp_updatedAt = tank_updatedAt t,
       tp_productName = product_name p \<rparr>)"

text \<open>Lines 206-223: the active tanks of the outlet with their product, by tank number.\<close>

definition tanksWithProduct :: "db \<Rightarrow> string \<Rightarrow> tankWithProduct list" where
  "tanksWithProduct d retailOutletId =
     map selectTank
       (orderBy (\<lambda>a b. tank_tankNumber (fst a) \<le> tank_tankNumber (fst b))
         (filter (\<lambda>row. tank_retailOutletId (fst row) = retailOutletId
                        \<and> tank_isActive (fst row) = Some True)
           (innerJoin (tanks d) (products d) (\<lambda>t p. tank_productId t = product_id p))))"

text \<open>
  Lines 229-234: the stock entries of the tank, latest shift date first, latest creation
  first among those, \<open>LIMIT 1\<close>.
\<close>

definition latestStockEntry :: "db \<Rightarrow> string \<Rightarrow> stockEntry list" where
  "latestStockEntry d tankId =
     take 1
       (orderBy (\<lambda>a b. (se_shiftDate b, se_createdAt b) \<le> (se_shiftDate a, se_createdAt a))
         (filter (\<lambda>e. se_tankId e = tankId) (stockEntries d)))"

text \<open>\<open>latestStockEntry[0]?.field\<close>: undefined on the empty result.\<close>

definition first :: "'a list \<Rightarrow> ('a \<Rightarrow> 'b) \<Rightarrow> 'b option" where
  "first rows field = (case rows of [] \<Rightarrow> None | r # _ \<Rightarrow> Some (field r))"

text \<open>Lines 243-250: the readings joined to their nozzle, on this tank, from the cutoff on.\<close>

definition dispensedRows :: "db \<Rightarrow> string \<Rightarrow> string \<Rightarrow> (nozzleReading \<times> nozzle) list" where
  "dispensedRows d tankId stockEntryDate =
     filter (\<lambda>row. nozzle_tankId (snd row) = tankId \<and> stockEntryDate \<le> nr_shiftDate (fst row))
       (innerJoin (nozzleReadings d) (nozzles d) (\<lambda>r n. nr_nozzleId r = nozzle_id n))"

text \<open>Line 241: \<open>COALESCE(SUM(current - previous - COALESCE(testing, 0)), 0)\<close>.\<close>

definition totalDispensed :: "db \<Rightarrow> string \<Rightarrow> string \<Rightarrow> rat" where
  "totalDispensed d tankId stockEntryDate =
     COALESCE
       (sqlSum (map (\<lambda>row. Some (nr_currentReading (fst row) - nr_previousReading (fst row)
                                   - COALESCE (nr_testing (fst row)) 0))
                    (dispensedRows d tankId stockEntryDate)))
       0"

text \<open>
  Lines 227-261: the body mapped over the tanks. \<open>tankCurrentStock\<close> is the value of
  \<open>Math.max(0, openingStock + receipts - dispensed)\<close> in exact arithmetic, as the comment
  of line 252 states it; the doubles that the program computes it with are the subject of
  the section on JavaScript numbers (\<open>currentStockString\<close>).
\<close>

definition tankCurrentStock :: "clock \<Rightarrow> db \<Rightarrow> string \<Rightarrow> rat" where
  "tankCurrentStock clk d tankId =
     (let latest = latestStockEntry d tankId;
          stockEntryDate = orElse (first latest se_shiftDate) (today clk);
          dispensed = totalDispensed d tankId stockEntryDate;
          openingStock = orZero (first latest se_openingStock);
          receipts = orZero (first latest se_receipt)
      in max 0 (openingStock + receipts - dispensed))"

definition getTanksByRetailOutletId :: "clock \<Rightarrow> db \<Rightarrow> string \<Rightarrow> tankWithStock list" where
  "getTanksByRetailOutletId clk d retailOutletId =
     map (\<lambda>tank. tankWithProduct.extend tank
                    \<lparr> currentStock = tankCurrentStock clk d (tp_id tank) \<rparr>)
       (tanksWithProduct d retailOutletId)"

section \<open>Sales aggregation: getShiftSalesByRetailOutletId\<close>

text \<open>
  A JavaScript \<open>Date\<close> built from \<open>shiftDate + 'T06:00:00'\<close> is the timestamp of that
  calendar date at that time of the day, in milliseconds.
\<close>

definition atTime :: "string \<Rightarrow> nat \<Rightarrow> timestamp" where
  "atTime date hours = (date, hours * 3600000)"

text \<open>One row of the grouped query, lines 419-436.\<close>

record shiftGroup =
  sg_shiftDate :: string
  sg_shiftType :: string
  sg_totalCashSales :: "rat option"
  sg_totalCreditSales :: "rat option"
  sg_totalUpiSales :: "rat option"
  sg_totalCardSales :: "rat option"
  sg_totalSales :: "rat option"
  sg_staffId :: string
  sg_staffName :: string

text \<open>The columns of the \<open>GROUP BY\<close> clause.\<close>

definition groupKey :: "nozzleReading \<times> staff \<Rightarrow> string \<times> string \<times> string \<times> string" where
  "groupKey row =
     (nr_shiftDate (fst row), nr_shiftType (fst row), nr_attendantId (fst row), staff_name (snd row))"

text \<open>
  \<open>GROUP BY\<close>: one group per distinct value of the grouping columns, holding the rows
  with that value.
\<close>

definition groupBy :: "('a \<Rightarrow> 'k) \<Rightarrow> 'a list \<Rightarrow> ('k \<times> 'a list) list" where
  "groupBy key rows = map (\<lambda>k. (k, filter (\<lambda>row. key row = k) rows)) (remdups (map key rows))"

definition selectGroup ::
  "(string \<times> string \<times> string \<times> string) \<times> (nozzleReading \<times> staff) list \<Rightarrow> shiftGroup" where
  "selectGroup g = (case g of ((shiftDate, shiftType, attendantId, staffName), rows) \<Rightarrow>
     \<lparr> sg_shiftDate = shiftDate, sg_shiftType = shiftType,
       sg_totalCashSales = sqlSum (map (\<lambda>row. nr_cashSales (fst row)) rows),
       sg_totalCreditSales = sqlSum (map (\<lambda>row. nr_creditSales (fst row)) rows),
       sg_totalUpiSales = sqlSum (map (\<lambda>row. nr_upiSales (fst row)) rows),
       sg_totalCardSales = sqlSum (map (\<lambda>row. nr_cardSales (fst row)) rows),
       sg_totalSales = sqlSum (map (\<lambda>row. Some (nr_totalSale (fst row))) rows),
       sg_staffId = attendantId, sg_staffName = staffName \<rparr>)"

text \<open>The rows the query groups: the outlet's readings joined to their attendant.\<close>

definition readingsWithStaff :: "db \<Rightarrow> string \<Rightarrow> (nozzleReading \<times> staff) list" where
  "readingsWithStaff d retailOutletId =
     filter (\<lambda>row. nr_retailOutletId (fst row) = retailOutletId)
       (innerJoin (nozzleReadings d) (staffs d) (\<lambda>r s. nr_attendantId r = staff_id s))"

definition shiftGroups :: "db \<Rightarrow> string \<Rightarrow> nat \<Rightarrow> shiftGroup list" where
  "shiftGroups d retailOutletId limit =
     take limit
       (orderBy (\<lambda>a b. sg_shiftDate b < sg_shiftDate a
                     \<or> (sg_shiftDate a = sg_shiftDate b \<and> sg_shiftType a \<le> sg_shiftType b))
         (map selectGroup (groupBy groupKey (readingsWithStaff d retailOutletId))))"

record shiftSalesSummary =
  sum_id :: string
  sum_retailOutletId :: string
  sum_staffId :: string
  sum_staffName :: string
  sum_shiftDate :: timestamp
  sum_shiftType :: string
  sum_startTime :: timestamp
  sum_endTime :: timestamp
  sum_cashSales :: rat
  sum_creditSales :: rat
  sum_upiSales :: rat
  sum_cardSales :: rat
  sum_totalSales :: rat
  sum_notes :: string
  sum_createdAt :: timestamp
  sum_updatedAt :: timestamp

text \<open>Lines 439-456: the transformation of a group into the ShiftSales shape.\<close>

definition toShiftSales :: "clock \<Rightarrow> string \<Rightarrow> shiftGroup \<Rightarrow> shiftSalesSummary" where
  "toShiftSales clk retailOutletId grp =
     \<lparr> sum_id = sg_shiftDate grp @ ''-'' @ sg_shiftType grp @ ''-'' @ sg_staffId grp,
       sum_retailOutletId = retailOutletId,
       sum_staffId = sg_staffId grp,
       sum_staffName = sg_staffName grp,
       sum_shiftDate = atTime (sg_shiftDate grp) 0,
       sum_shiftType = sg_shiftType grp,
       sum_startTime = atTime (sg_shiftDate grp) 6,
       sum_endTime = atTime (sg_shiftDate grp) 18,
       sum_cashSales = orZero (sg_totalCashSales grp),
       sum_creditSales = orZero (sg_totalCreditSales grp),
       sum_upiSales = orZero (sg_totalUpiSales grp),
       sum_cardSales = orZero (sg_totalCardSales grp),
       sum_totalSales = orZero (sg_totalSales grp),
       sum_notes = [],
       sum_createdAt = now clk,
       sum_updatedAt = now clk \<rparr>"

text \<open>The parameter \<open>limit = 10\<close>: the default applies when the argument is left out.\<close>

definition getShiftSalesByRetailOutletId ::
  "clock \<Rightarrow> db \<Rightarrow> string \<Rightarrow> nat option \<Rightarrow> shiftSalesSummary list" where
  "getShiftSalesByRetailOutletId clk d retailOutletId limit =
     map (toShiftSales clk retailOutletId)
       (shiftGroups d retailOutletId (case limit of None \<Rightarrow> 10 | Some n \<Rightarrow> n))"


section \<open>JavaScript numbers and numeric columns\<close>

text \<open>
  A JavaScript number is a double: a rational \<open>m * 2^e\<close> with a significand \<open>m\<close> of
  at most 53 bits. \<open>toDouble\<close> is the rounding of IEEE 754 (to nearest, ties to the even
  significand) that \<open>Number\<close>, \<open>parseFloat\<close> and the arithmetic apply to the exact
  value. The exponent is not bounded here: the model is the program for magnitudes between
  \<open>2^-1022\<close> and \<open>2^1024\<close>, and amounts of a \<open>numeric(10,2)\<close> column lie between
  \<open>10^-2\<close> and \<open>10^8\<close>. \<open>NaN\<close> is not an amount and is not modelled.
\<close>

text \<open>\<open>\<lfloor>log\<^sub>2 x\<rfloor>\<close> for a positive \<open>x\<close>.\<close>

definition expo :: "rat \<Rightarrow> int" where
  "expo x = (if 1 \<le> x then bitlen \<lfloor>x\<rfloor> - 1 else - bitlen (\<lceil>1 / x\<rceil> - 1))"

definition roundHalfEven :: "rat \<Rightarrow> int" where
  "roundHalfEven q =
     (let f = \<lfloor>q\<rfloor>; r = q - of_int f
      in if r < 1 / 2 then f else if 1 / 2 < r then f + 1 else if even f then f else f + 1)"

definition toDouble :: "rat \<Rightarrow> rat" where
  "toDouble x =
     (if x = 0 then 0
      else let ulp = power_int 2 (expo \<bar>x\<bar> - 52)
           in sgn x * of_int (roundHalfEven (\<bar>x\<bar> / ulp)) * ulp)"

text \<open>\<open>a + b\<close> and \<open>a - b\<close> on doubles.\<close>

definition doublePlus :: "rat \<Rightarrow> rat \<Rightarrow> rat" where
  "doublePlus a b = toDouble (a + b)"

definition doubleMinus :: "rat \<Rightarrow> rat \<Rightarrow> rat" where
  "doubleMinus a b = toDouble (a - b)"

text \<open>
  \<open>x.toString()\<close> (ECMAScript \<open>Number::toString\<close>): the decimal with the fewest
  significant digits that reads back as \<open>x\<close>, the closest to \<open>x\<close> among those, the
  even last digit on a tie. With \<open>k\<close> digits the candidates are \<open>x\<close> cut after its
  \<open>k\<close>-th significant digit and the next decimal above; 17 digits always suffice. The
  string is represented by the number it denotes.
\<close>

text \<open>\<open>\<lfloor>log\<^sub>1\<^sub>0 x\<rfloor>\<close> for a positive \<open>x\<close>.\<close>

definition expo10 :: "rat \<Rightarrow> int" where
  "expo10 x = (if 1 \<le> x then int (floorlog 10 (nat \<lfloor>x\<rfloor>)) - 1
               else - int (floorlog 10 (nat (\<lceil>1 / x\<rceil> - 1))))"

fun shortestDecimal :: "rat \<Rightarrow> int \<Rightarrow> nat list \<Rightarrow> rat" where
  "shortestDecimal x e [] = x"
| "shortestDecimal x e (k # ks) =
     (let unit = power_int 10 (e + 1 - int k);
          n = \<lfloor>x / unit\<rfloor>;
          lo = of_int n * unit;
          hi = of_int (n + 1) * unit
      in if toDouble lo = x \<and> toDouble hi = x
         then (if x - lo < hi - x then lo else if hi - x < x - lo then hi
               else if even n then lo else hi)
         else if toDouble lo = x then lo
         else if toDouble hi = x then hi
         else shortestDecimal x e ks)"

definition numberToString :: "rat \<Rightarrow> rat" where
  "numberToString x =
     (if x = 0 then 0 else sgn x * shortestDecimal \<bar>x\<bar> (expo10 \<bar>x\<bar>) [1..<18])"

text \<open>An error raised by the store; the routes answer it with status 400 or 500.\<close>

datatype storeError = InvalidDatetimeFormat | NumericFieldOverflow | ForeignKeyViolation

text \<open>
  What a \<open>numeric(10,2)\<close> column stores for a decimal: the value rounded to two
  decimals, half away from zero; a rounded value of \<open>10^8\<close> or more in magnitude raises
  \<open>numeric field overflow\<close>.
\<close>

definition roundHalfAway :: "rat \<Rightarrow> rat" where
  "roundHalfAway v = sgn v * of_int \<lfloor>\<bar>v\<bar> * 100 + 1 / 2\<rfloor> / 100"

definition numericColumn :: "rat \<Rightarrow> storeError + rat" where
  "numericColumn v =
     (if \<bar>roundHalfAway v\<bar> < 10 ^ 8 then Inr (roundHalfAway v) else Inl NumericFieldOverflow)"

text \<open>Sequencing of steps that may raise.\<close>

definition andThen :: "'e + 'a \<Rightarrow> ('a \<Rightarrow> 'e + 'b) \<Rightarrow> 'e + 'b" where
  "andThen r f = (case r of Inl e \<Rightarrow> Inl e | Inr v \<Rightarrow> f v)"

section \<open>Stock reconciliation: the arithmetic of lines 253-260\<close>

text \<open>
  \<open>tankCurrentStock\<close> reads lines 253-256 in exact arithmetic. The program parses the
  three decimal strings with \<open>parseFloat\<close>, adds and subtracts doubles and returns the
  string of the result:
\<close>

definition currentStockString :: "clock \<Rightarrow> db \<Rightarrow> string \<Rightarrow> rat" where
  "currentStockString clk d tankId =
     (let latest = latestStockEntry d tankId;
          stockEntryDate = orElse (first latest se_shiftDate) (today clk);
          dispensed = toDouble (totalDispensed d tankId stockEntryDate);
          openingStock = toDouble (orZero (first latest se_openingStock));
          receipts = toDouble (orZero (first latest se_receipt));
          currentStock = max 0 (doubleMinus (doublePlus openingStock receipts) dispensed)
      in numberToString currentStock)"

section \<open>Inserts: createShiftSales and createNozzleReading\<close>

text \<open>
  A field of an insert value that the caller may leave out (\<open>undefined\<close>) or set to
  \<open>null\<close>. The store fills a column that is left out with its default and stores
  \<open>NULL\<close> for \<open>null\<close>. A decimal field is the number its decimal string denotes.
\<close>

datatype 'a optional = Undefined | Null | Given 'a

definition columnValue :: "'a option \<Rightarrow> 'a optional \<Rightarrow> 'a option" where
  "columnValue dflt v = (case v of Undefined \<Rightarrow> dflt | Null \<Rightarrow> None | Given x \<Rightarrow> Some x)"

text \<open>A nullable \<open>numeric(10,2)\<close> column with default 0.\<close>

definition numericField :: "rat optional \<Rightarrow> storeError + rat option" where
  "numericField v =
     (case v of
        Undefined \<Rightarrow> Inr (Some 0)
      | Null \<Rightarrow> Inr None
      | Given x \<Rightarrow> andThen (numericColumn x) (\<lambda>stored. Inr (Some stored)))"

text \<open>\<open>Number(v || 0)\<close> on a decimal string that may be missing.\<close>

definition numberOrZero :: "rat optional \<Rightarrow> rat" where
  "numberOrZero v = (case v of Undefined \<Rightarrow> 0 | Null \<Rightarrow> 0 | Given x \<Rightarrow> toDouble x)"

record insertShiftSales =
  iss_retailOutletId :: string
  iss_staffId :: string
  iss_shiftDate :: timestamp
  iss_shiftType :: string
  iss_startTime :: timestamp
  iss_endTime :: timestamp
  iss_cashSales :: "rat optional"
  iss_creditSales :: "rat optional"
  iss_upiSales :: "rat optional"
  iss_cardSales :: "rat optional"
  iss_totalSales :: "rat optional"
  iss_notes :: "string optional"

text \<open>
  \<open>insert(shiftSales).values(v).returning()\<close>: the decimal columns are converted
  first, then the row is checked against the foreign keys of the table; a statement that
  raises stores nothing. \<open>newId\<close> stands for the \<open>gen_random_uuid()\<close> default of the
  \<open>id\<close> column. The result is the inserted row together with the new stored state.
\<close>

definition insertShiftSalesRow ::
  "string \<Rightarrow> clock \<Rightarrow> db \<Rightarrow> insertShiftSales \<Rightarrow> storeError + shiftSales \<times> db" where
  "insertShiftSalesRow newId clk d v =
     andThen (numericField (iss_cashSales v)) (\<lambda>cash.
     andThen (numericField (iss_creditSales v)) (\<lambda>credit.
     andThen (numericField (iss_upiSales v)) (\<lambda>upi.
     andThen (numericField (iss_cardSales v)) (\<lambda>card.
     andThen (numericField (iss_totalSales v)) (\<lambda>total.
       if iss_retailOutletId v \<in> set (map outlet_id (retailOutlets d))
          \<and> iss_staffId v \<in> set (map staff_id (staffs d))
       then (let newSales =
                   \<lparr> ss_id = newId, ss_retailOutletId = iss_retailOutletId v,
                     ss_staffId = iss_staffId v, ss_shiftDate = iss_shiftDate v,
                     ss_shiftType = iss_shiftType v, ss_startTime = iss_startTime v,
                     ss_endTime = iss_endTime v, ss_cashSales = cash,
                     ss_creditSales = credit, ss_upiSales = upi, ss_cardSales = card,
                     ss_totalSales = total, ss_notes = columnValue None (iss_notes v),
                     ss_createdAt = Some (now clk) \<rparr>
             in Inr (newSales, d \<lparr> shiftSalesRows := shiftSalesRows d @ [newSales] \<rparr>))
       else Inl ForeignKeyViolation)))))"

text \<open>
  Lines 459-470: the four payments are added as doubles, and the string of the sum
  replaces whatever \<open>totalSales\<close> the caller passed.
\<close>

definition createShiftSales ::
  "string \<Rightarrow> clock \<Rightarrow> db \<Rightarrow> insertShiftSales \<Rightarrow> storeError + shiftSales \<times> db" where
  "createShiftSales newId clk d sales =
     (let totalSales = doublePlus (doublePlus (doublePlus (numberOrZero (iss_cashSales sales))
                                (numberOrZero (iss_creditSales sales)))
                              (numberOrZero (iss_upiSales sales)))
                            (numberOrZero (iss_cardSales sales))
      in insertShiftSalesRow newId clk d
           (sales \<lparr> iss_totalSales := Given (numberToString totalSales) \<rparr>))"

record insertNozzleReading =
  inr_retailOutletId :: string
  inr_nozzleId :: string
  inr_attendantId :: string
  inr_shiftType :: string
  inr_shiftDate :: string
  inr_previousReading :: rat
  inr_currentReading :: rat
  inr_testing :: "rat optional"
  inr_totalSale :: rat
  inr_cashSales :: "rat optional"
  inr_creditSales :: "rat optional"
  inr_upiSales :: "rat optional"
  inr_cardSales :: "rat optional"

text \<open>Lines 884-890: the values are inserted as they come.\<close>

definition createNozzleReading ::
  "string \<Rightarrow> clock \<Rightarrow> db \<Rightarrow> insertNozzleReading \<Rightarrow> storeError + nozzleReading \<times> db" where
  "createNozzleReading newId clk d reading =
     andThen (numericColumn (inr_previousReading reading)) (\<lambda>previous.
     andThen (numericColumn (inr_currentReading reading)) (\<lambda>current.
     andThen (numericField (inr_testing reading)) (\<lambda>testing.
     andThen (numericColumn (inr_totalSale reading)) (\<lambda>total.
     andThen (numericField (inr_cashSales reading)) (\<lambda>cash.
     andThen (numericField (inr_creditSales reading)) (\<lambda>credit.
     andThen (numericField (inr_upiSales reading)) (\<lambda>upi.
     andThen (numericField (inr_cardSales reading)) (\<lambda>card.
       if inr_retailOutletId reading \<in> set (map outlet_id (retailOutlets d))
          \<and> inr_nozzleId reading \<in> set (map nozzle_id (nozzles d))
          \<and> inr_attendantId reading \<in> set (map staff_id (staffs d))
       then (let newReading =
                   \<lparr> nr_id = newId, nr_retailOutletId = inr_retailOutletId reading,
                     nr_nozzleId = inr_nozzleId reading,
                     nr_attendantId = inr_attendantId reading,
                     nr_shiftType = inr_shiftType reading,
                     nr_shiftDate = inr_shiftDate reading,
                     nr_previousReading = previous, nr_currentReading = current,
                     nr_testing = testing, nr_totalSale = total, nr_cashSales = cash,
                     nr_creditSales = credit, nr_upiSales = upi, nr_cardSales = card,
                     nr_createdAt = Some (now clk) \<rparr>
             in Inr (newReading, d \<lparr> nozzleReadings := nozzleReadings d @ [newReading] \<rparr>))
       else Inl ForeignKeyViolation))))))))"

section \<open>Sales statistics: getShiftSalesStats\<close>

record paymentMethodBreakdown =
  pm_cash :: rat
  pm_credit :: rat
  pm_upi :: rat
  pm_card :: rat

record salesStats =
  weeklySales :: rat
  monthlySales :: rat
  paymentBreakdown :: paymentMethodBreakdown

text \<open>
  Lines 497-534: the rows of \<open>shift_sales\<close> of the outlet from a point in time on. An
  aggregate query without \<open>GROUP BY\<close> yields one row, whose sums are \<open>NULL\<close> when
  nothing matched; \<open>|| 0\<close> turns that into 0.
\<close>

text \<open>Lines 491-495: \<open>setDate(getDate() - 7)\<close> and \<open>setMonth(getMonth() - 1)\<close>.\<close>

definition weekAgo :: "clock \<Rightarrow> timestamp" where
  "weekAgo clk = toTimestamp (setDate (newDate clk) (int (date_day (newDate clk)) - 7))"

definition monthAgo :: "clock \<Rightarrow> timestamp" where
  "monthAgo clk = toTimestamp (setMonth (newDate clk) (int (date_month (newDate clk)) - 1))"

definition shiftSalesSince :: "db \<Rightarrow> string \<Rightarrow> timestamp \<Rightarrow> shiftSales list" where
  "shiftSalesSince d retailOutletId since =
     filter (\<lambda>s. ss_retailOutletId s = retailOutletId \<and> since \<le> ss_shiftDate s) (shiftSalesRows d)"

definition getShiftSalesStats :: "clock \<Rightarrow> db \<Rightarrow> string \<Rightarrow> salesStats" where
  "getShiftSalesStats clk d retailOutletId =
     (let weeklyResult = sqlSum (map ss_totalSales (shiftSalesSince d retailOutletId (weekAgo clk)));
          monthlyResult = sqlSum (map ss_totalSales (shiftSalesSince d retailOutletId (monthAgo clk)));
          breakdownRows = shiftSalesSince d retailOutletId (monthAgo clk)
      in \<lparr> weeklySales = orZero weeklyResult,
           monthlySales = orZero monthlyResult,
           paymentBreakdown =
             \<lparr> pm_cash = orZero (sqlSum (map ss_cashSales breakdownRows)),
               pm_credit = orZero (sqlSum (map ss_creditSales breakdownRows)),
               pm_upi = orZero (sqlSum (map ss_upiSales breakdownRows)),
               pm_card = orZero (sqlSum (map ss_cardSales breakdownRows)) \<rparr> \<rparr>)"

section \<open>Product rates: getLastProductRates\<close>

text \<open>
  Lines 689-700: the shift of that manager and type created on the target date. An
  optional string argument is \<open>None\<close> when it is left out; it is truthy when it is
  given and not empty. The query compares \<open>DATE(created_at)\<close> with the parameter as
  dates: the store reads the string with its date input function, which is not code of the
  repository and is the parameter \<open>dateInput\<close> here. It yields the calendar date
  the string denotes (in the form \<open>YYYY-MM-DD\<close>, so \<open>2024-1-2\<close> denotes
  \<open>2024-01-02\<close>) or nothing, and then the query raises.
\<close>

fun specificShift ::
  "(string \<Rightarrow> string option) \<Rightarrow> db \<Rightarrow> string \<Rightarrow> string option \<Rightarrow> string option
   \<Rightarrow> storeError + shift list" where
  "specificShift dateInput d managerId (Some targetDate) (Some targetShiftType) =
     (if targetDate \<noteq> [] \<and> targetShiftType \<noteq> []
      then (case dateInput targetDate of
              None \<Rightarrow> Inl InvalidDatetimeFormat
            | Some day \<Rightarrow>
                Inr (take 1 (filter (\<lambda>s. shift_managerId s = managerId
                                          \<and> shift_shiftType s = targetShiftType
                                          \<and> DATE (shift_createdAt s) = day) (shifts d))))
      else Inr [])"
| "specificShift dateInput d managerId _ _ = Inr []"

text \<open>Lines 709-720: the most recently updated shift of that manager and type.\<close>

fun recentShiftOfType :: "db \<Rightarrow> string \<Rightarrow> string option \<Rightarrow> shift list" where
  "recentShiftOfType d managerId (Some targetShiftType) =
     (if targetShiftType \<noteq> []
      then take 1 (orderBy (\<lambda>a b. shift_updatedAt b \<le> shift_updatedAt a)
                     (filter (\<lambda>s. shift_managerId s = managerId
                                   \<and> shift_shiftType s = targetShiftType) (shifts d)))
      else [])"
| "recentShiftOfType d managerId None = []"

text \<open>Lines 729-734: the most recently updated shift of that manager.\<close>

definition latestShift :: "db \<Rightarrow> string \<Rightarrow> shift list" where
  "latestShift d managerId =
     take 1 (orderBy (\<lambda>a b. shift_updatedAt b \<le> shift_updatedAt a)
               (filter (\<lambda>s. shift_managerId s = managerId) (shifts d)))"

text \<open>
  \<open>row?.productRates\<close> as a condition: it holds when the row exists and the column is
  not \<open>NULL\<close>; a list, empty or not, is truthy.
\<close>

definition ratesOf :: "shift list \<Rightarrow> productRate list option" where
  "ratesOf rows = (case rows of [] \<Rightarrow> None | s # _ \<Rightarrow> shift_productRates s)"

definition getLastProductRates ::
  "(string \<Rightarrow> string option) \<Rightarrow> db \<Rightarrow> string \<Rightarrow> string option \<Rightarrow> string option
   \<Rightarrow> storeError + productRate list" where
  "getLastProductRates dateInput d managerId targetDate targetShiftType =
     (case specificShift dateInput d managerId targetDate targetShiftType of
        Inl e \<Rightarrow> Inl e
      | Inr specific \<Rightarrow>
          (case ratesOf specific of
             Some rates \<Rightarrow> Inr rates
           | None \<Rightarrow>
               (case ratesOf (recentShiftOfType d managerId targetShiftType) of
                  Some rates \<Rightarrow> Inr rates
                | None \<Rightarrow>
                    (case ratesOf (latestShift d managerId) of
                       Some rates \<Rightarrow> Inr rates
                     | None \<Rightarrow> Inr []))))"

section \<open>The route GET /api/tanks (routes.ts)\<close>

text \<open>
  The only caller of the stock reconciliation. The store's own failures (the \<open>catch\<close>
  branch answering 500) are not part of the model: every query is total.
\<close>

datatype httpError = HttpError nat string

definition getRetailOutletByOwnerId :: "db \<Rightarrow> string \<Rightarrow> retailOutlet option" where
  "getRetailOutletByOwnerId d ownerId =
     (case filter (\<lambda>outlet. outlet_ownerId outlet = ownerId) (retailOutlets d) of
        [] \<Rightarrow> None
      | outlet # _ \<Rightarrow> Some outlet)"

definition getApiTanks :: "clock \<Rightarrow> db \<Rightarrow> string \<Rightarrow> httpError + tankWithStock list" where
  "getApiTanks clk d userId =
     (case getRetailOutletByOwnerId d userId of
        None \<Rightarrow> Inl (HttpError 404 ''Retail outlet not found'')
      | Some outlet \<Rightarrow> Inr (getTanksByRetailOutletId clk d (outlet_id outlet)))"

section \<open>The specification's notions for the stock reconciliation\<close>

definition readingsOnTank :: "db \<Rightarrow> string \<Rightarrow> nozzleReading list" where
  "readingsOnTank d tankId =
     filter (\<lambda>r. \<exists>n \<in> set (nozzles d). nozzle_id n = nr_nozzleId r \<and> nozzle_tankId n = tankId)
       (nozzleReadings d)"

definition isLatestEntry :: "db \<Rightarrow> string \<Rightarrow> stockEntry \<Rightarrow> bool" where
  "isLatestEntry d tankId e \<longleftrightarrow>
     e \<in> set (stockEntries d) \<and> se_tankId e = tankId \<and>
     (\<forall>e' \<in> set (stockEntries d). se_tankId e' = tankId \<longrightarrow>
        (se_shiftDate e', se_createdAt e') \<le> (se_shiftDate e, se_createdAt e))"


section \<open>The specification's notions for the sales aggregation\<close>

text \<open>The sum of a nullable amount over rows, a missing amount counted as zero.\<close>

definition missingAsZero :: "('a \<Rightarrow> rat option) \<Rightarrow> 'a list \<Rightarrow> rat" where
  "missingAsZero field rows = sum_list (map (\<lambda>row. case field row of None \<Rightarrow> 0 | Some v \<Rightarrow> v) rows)"


text \<open>
  The composite key of the specification, read off a reading and off a produced summary,
  and the readings of an outlet that share a key.
\<close>

definition readingKey :: "nozzleReading \<Rightarrow> string \<times> string \<times> string" where
  "readingKey r = (nr_shiftDate r, nr_shiftType r, nr_attendantId r)"

definition summaryKey :: "shiftSalesSummary \<Rightarrow> string \<times> string \<times> string" where
  "summaryKey g = (DATE (sum_shiftDate g), sum_shiftType g, sum_staffId g)"

definition readingsOfGroup :: "db \<Rightarrow> string \<Rightarrow> string \<times> string \<times> string \<Rightarrow> nozzleReading list" where
  "readingsOfGroup d outlet k =
     filter (\<lambda>r. nr_retailOutletId r = outlet \<and> readingKey r = k) (nozzleReadings d)"

text \<open>Shift date descending, then shift type.\<close>

definition summaryOrder :: "shiftSalesSummary \<Rightarrow> shiftSalesSummary \<Rightarrow> bool" where
  "summaryOrder a b \<longleftrightarrow>
     DATE (sum_shiftDate b) < DATE (sum_shiftDate a)
     \<or> (DATE (sum_shiftDate a) = DATE (sum_shiftDate b) \<and> sum_shiftType a \<le> sum_shiftType b)"

section \<open>The specification's notions for tenant scoping\<close>

definition outletTankIds :: "db \<Rightarrow> string \<Rightarrow> string list" where
  "outletTankIds d outlet = map tank_id (filter (\<lambda>t. tank_retailOutletId t = outlet) (tanks d))"

text \<open>
  Two stored states agree on the records of an outlet: the rows that carry the outlet's
  id are the same, table by table. A nozzle carries no outlet id: it belongs to the outlet
  of its tank, and the two states have the same nozzles on the outlet's tanks. The records
  of other outlets, their nozzles included, are free to differ.
\<close>

definition agreeOnOutlet :: "string \<Rightarrow> db \<Rightarrow> db \<Rightarrow> bool" where
  "agreeOnOutlet outlet d1 d2 \<longleftrightarrow>
     filter (\<lambda>t. tank_retailOutletId t = outlet) (tanks d1)
       = filter (\<lambda>t. tank_retailOutletId t = outlet) (tanks d2)
     \<and> filter (\<lambda>p. product_retailOutletId p = outlet) (products d1)
       = filter (\<lambda>p. product_retailOutletId p = outlet) (products d2)
     \<and> filter (\<lambda>s. staff_retailOutletId s = outlet) (staffs d1)
       = filter (\<lambda>s. staff_retailOutletId s = outlet) (staffs d2)
     \<and> filter (\<lambda>r. nr_retailOutletId r = outlet) (nozzleReadings d1)
       = filter (\<lambda>r. nr_retailOutletId r = outlet) (nozzleReadings d2)
     \<and> filter (\<lambda>e. se_retailOutletId e = outlet) (stockEntries d1)
       = filter (\<lambda>e. se_retailOutletId e = outlet) (stockEntries d2)
     \<and> filter (\<lambda>s. ss_retailOutletId s = outlet) (shiftSalesRows d1)
       = filter (\<lambda>s. ss_retailOutletId s = outlet) (shiftSalesRows d2)
     \<and> filter (\<lambda>n. nozzle_tankId n \<in> set (outletTankIds d1 outlet)) (nozzles d1)
       = filter (\<lambda>n. nozzle_tankId n \<in> set (outletTankIds d2 outlet)) (nozzles d2)"

text \<open>
  The records attached to the outlet's records belong to the outlet: the stock entries of
  its tanks, the readings on nozzles of its tanks, the products of its tanks and the
  attendants of its readings.
\<close>

definition referencesWithinOutlet :: "string \<Rightarrow> db \<Rightarrow> bool" where
  "referencesWithinOutlet outlet d \<longleftrightarrow>
     (\<forall>e \<in> set (stockEntries d).
        se_tankId e \<in> set (outletTankIds d outlet) \<longrightarrow> se_retailOutletId e = outlet)
     \<and> (\<forall>r \<in> set (nozzleReadings d). \<forall>n \<in> set (nozzles d).
          nr_nozzleId r = nozzle_id n \<and> nozzle_tankId n \<in> set (outletTankIds d outlet)
          \<longrightarrow> nr_retailOutletId r = outlet)
     \<and> (\<forall>t \<in> set (tanks d). \<forall>p \<in> set (products d).
          tank_retailOutletId t = outlet \<and> tank_productId t = product_id p
          \<longrightarrow> product_retailOutletId p = outlet)
     \<and> (\<forall>r \<in> set (nozzleReadings d). \<forall>s \<in> set (staffs d).
          nr_retailOutletId r = outlet \<and> nr_attendantId r = staff_id s
          \<longrightarrow> staff_retailOutletId s = outlet)"

section \<open>The specification's notions for the inserts\<close>

text \<open>A supplied amount, a missing one counted as 0.\<close>

definition suppliedOrZero :: "rat optional \<Rightarrow> rat" where
  "suppliedOrZero v = (case v of Undefined \<Rightarrow> 0 | Null \<Rightarrow> 0 | Given x \<Rightarrow> x)"

text \<open>
  A supplied amount that a \<open>numeric(10,2)\<close> column holds as it is: at most two decimals
  and less than \<open>10^8\<close> in magnitude. A missing amount is one.
\<close>

definition columnAmount :: "rat optional \<Rightarrow> bool" where
  "columnAmount v \<longleftrightarrow>
     (case v of
        Undefined \<Rightarrow> True
      | Null \<Rightarrow> True
      | Given x \<Rightarrow> of_int \<lfloor>x * 100\<rfloor> = x * 100 \<and> \<bar>x\<bar> < 10 ^ 8)"

definition suppliedTotal :: "insertShiftSales \<Rightarrow> rat" where
  "suppliedTotal sales =
     suppliedOrZero (iss_cashSales sales) + suppliedOrZero (iss_creditSales sales)
     + suppliedOrZero (iss_upiSales sales) + suppliedOrZero (iss_cardSales sales)"

section \<open>Scenarios\<close>

definition scenarioClock :: clock where
  "scenarioClock =
     \<lparr> now = (''2024-01-03'', 0), today = ''2024-01-03'',
       newDate = \<lparr> date_year = 2024, date_month = 0, date_day = 3, date_millis = 0 \<rparr> \<rparr>"

definition tankT :: tank where
  "tankT = \<lparr> tank_id = ''T'', tank_retailOutletId = ''O'', tank_productId = ''P'',
             tank_tankNumber = ''1'', tank_capacity = 20000, tank_length = 6, tank_diameter = 2,
             tank_isActive = Some True, tank_createdAt = None, tank_updatedAt = None \<rparr>"

definition productP :: product where
  "productP = \<lparr> product_id = ''P'', product_retailOutletId = ''O'', product_name = ''petrol'',
                product_pricePerLiter = 100, product_isActive = Some True \<rparr>"

definition nozzleN :: nozzle where
  "nozzleN = \<lparr> nozzle_id = ''N'', nozzle_dispensingUnitId = ''U'', nozzle_tankId = ''T'',
               nozzle_nozzleNumber = 1, nozzle_isActive = Some True \<rparr>"

definition staffA :: staff where
  "staffA = \<lparr> staff_id = ''A'', staff_retailOutletId = ''O'', staff_name = ''Asha'',
              staff_role = ''attendant'', staff_isActive = Some True \<rparr>"

definition entryE :: stockEntry where
  "entryE = \<lparr> se_id = ''E'', se_retailOutletId = ''O'', se_tankId = ''T'', se_managerId = ''A'',
              se_shiftType = ''morning'', se_shiftDate = ''2024-01-01'', se_openingStock = 1000,
              se_receipt = 500, se_invoiceValue = 50000, se_createdAt = (''2024-01-01'', 0) \<rparr>"

definition meterReading :: "string \<Rightarrow> string \<Rightarrow> rat \<Rightarrow> rat \<Rightarrow> rat option \<Rightarrow> nozzleReading" where
  "meterReading rid date previous current testing =
     \<lparr> nr_id = rid, nr_retailOutletId = ''O'', nr_nozzleId = ''N'', nr_attendantId = ''A'',
       nr_shiftType = ''morning'', nr_shiftDate = date, nr_previousReading = previous,
       nr_currentReading = current, nr_testing = testing, nr_totalSale = 0,
       nr_cashSales = None, nr_creditSales = None, nr_upiSales = None, nr_cardSales = None,
       nr_createdAt = None \<rparr>"

definition scenarioDb :: "nozzleReading list \<Rightarrow> db" where
  "scenarioDb readings =
     \<lparr> retailOutlets = [\<lparr> outlet_id = ''O'', outlet_ownerId = ''U1'', outlet_name = ''Outlet'' \<rparr>],
       tanks = [tankT], products = [productP], nozzles = [nozzleN], staffs = [staffA],
       nozzleReadings = readings, stockEntries = [entryE], shiftSalesRows = [], shifts = [] \<rparr>"


definition scenarioReadings :: "nozzleReading list" where
  "scenarioReadings = [meterReading ''R1'' ''2024-01-01'' 0 200 (Some 0), meterReading ''R2'' ''2024-01-02'' 200 300 None]"

definition excessReadings :: "nozzleReading list" where
  "excessReadings = [meterReading ''R1'' ''2024-01-01'' 0 1500 (Some 0), meterReading ''R2'' ''2024-01-02'' 1500 2000 None]"


text \<open>The scenario's outlet with its tank switched off, and with no facts at all.\<close>

definition inactiveTankDb :: db where
  "inactiveTankDb = (scenarioDb scenarioReadings) \<lparr> tanks := [tankT \<lparr> tank_isActive := Some False \<rparr>] \<rparr>"

definition emptyTankDb :: db where
  "emptyTankDb = (scenarioDb []) \<lparr> stockEntries := [] \<rparr>"

definition outletOther :: retailOutlet where
  "outletOther = \<lparr> outlet_id = ''other'', outlet_ownerId = ''U2'', outlet_name = ''Other outlet'' \<rparr>"

definition staffX :: staff where
  "staffX = \<lparr> staff_id = ''AX'', staff_retailOutletId = ''other'', staff_name = ''Xavier'',
              staff_role = ''attendant'', staff_isActive = Some True \<rparr>"

text \<open>
  Stored shift-sales rows: one of the outlet in the last week, one in the last month only,
  one of another outlet.
\<close>

definition statsDb :: db where
  "statsDb = (scenarioDb [])
     \<lparr> retailOutlets := retailOutlets (scenarioDb []) @ [outletOther],
       staffs := [staffA, staffX], shiftSalesRows :=
     [ \<lparr> ss_id = ''S1'', ss_retailOutletId = ''O'', ss_staffId = ''A'',
         ss_shiftDate = (''2024-01-02'', 0), ss_shiftType = ''morning'',
         ss_startTime = (''2024-01-02'', 21600000), ss_endTime = (''2024-01-02'', 64800000),
         ss_cashSales = Some 100, ss_creditSales = Some 50, ss_upiSales = None,
         ss_cardSales = Some 25, ss_totalSales = Some 175, ss_notes = None,
         ss_createdAt = None \<rparr>,
       \<lparr> ss_id = ''S2'', ss_retailOutletId = ''O'', ss_staffId = ''A'',
         ss_shiftDate = (''2023-12-10'', 0), ss_shiftType = ''evening'',
         ss_startTime = (''2023-12-10'', 21600000), ss_endTime = (''2023-12-10'', 64800000),
         ss_cashSales = Some 10, ss_creditSales = None, ss_upiSales = Some 7,
         ss_cardSales = Some 3, ss_totalSales = Some 20, ss_notes = None,
         ss_createdAt = None \<rparr>,
       \<lparr> ss_id = ''S3'', ss_retailOutletId = ''other'', ss_staffId = ''AX'',
         ss_shiftDate = (''2024-01-02'', 0), ss_shiftType = ''morning'',
         ss_startTime = (''2024-01-02'', 21600000), ss_endTime = (''2024-01-02'', 64800000),
         ss_cashSales = Some 1000, ss_creditSales = None, ss_upiSales = None,
         ss_cardSales = None, ss_totalSales = Some 1000, ss_notes = None,
         ss_createdAt = None \<rparr> ] \<rparr>"


text \<open>
  Shift sales as a caller may pass them: a total of 999 against payments of 10 and 5;
  payments of 0.004 and 0.004; four payments of 99999999.99. And a nozzle reading with a
  total of 999 against payments of 10 and 5.
\<close>

definition salesOf :: "rat optional \<Rightarrow> rat optional \<Rightarrow> rat optional \<Rightarrow> rat optional
    \<Rightarrow> rat optional \<Rightarrow> insertShiftSales" where
  "salesOf cashAmount creditAmount upiAmount cardAmount totalAmount =
     \<lparr> iss_retailOutletId = ''O'', iss_staffId = ''A'', iss_shiftDate = (''2024-01-02'', 0),
       iss_shiftType = ''morning'', iss_startTime = (''2024-01-02'', 21600000),
       iss_endTime = (''2024-01-02'', 64800000), iss_cashSales = cashAmount,
       iss_creditSales = creditAmount, iss_upiSales = upiAmount, iss_cardSales = cardAmount,
       iss_totalSales = totalAmount, iss_notes = Undefined \<rparr>"

definition inconsistentSales :: insertShiftSales where
  "inconsistentSales = salesOf (Given 10) Null Undefined (Given 5) (Given 999)"

definition fourThousandths :: rat where
  "fourThousandths = 4 / 1000"

definition tinySales :: insertShiftSales where
  "tinySales = salesOf (Given fourThousandths) (Given fourThousandths) Undefined Undefined Undefined"

definition hugeSales :: insertShiftSales where
  "hugeSales = salesOf (Given (9999999999 / 100)) (Given (9999999999 / 100))
                 (Given (9999999999 / 100)) (Given (9999999999 / 100)) Undefined"

definition storedSales :: "rat option \<Rightarrow> rat option \<Rightarrow> rat option \<Rightarrow> rat option
    \<Rightarrow> rat option \<Rightarrow> shiftSales" where
  "storedSales cashAmount creditAmount upiAmount cardAmount totalAmount =
     \<lparr> ss_id = ''S9'', ss_retailOutletId = ''O'', ss_staffId = ''A'',
       ss_shiftDate = (''2024-01-02'', 0), ss_shiftType = ''morning'',
       ss_startTime = (''2024-01-02'', 21600000), ss_endTime = (''2024-01-02'', 64800000),
       ss_cashSales = cashAmount, ss_creditSales = creditAmount, ss_upiSales = upiAmount,
       ss_cardSales = cardAmount, ss_totalSales = totalAmount, ss_notes = None,
       ss_createdAt = Some (''2024-01-03'', 0) \<rparr>"

definition inconsistentReading :: insertNozzleReading where
  "inconsistentReading =
     \<lparr> inr_retailOutletId = ''O'', inr_nozzleId = ''N'', inr_attendantId = ''A'',
       inr_shiftType = ''morning'', inr_shiftDate = ''2024-01-02'', inr_previousReading = 0,
       inr_currentReading = 10, inr_testing = Undefined, inr_totalSale = 999,
       inr_cashSales = Given 10, inr_creditSales = Null, inr_upiSales = Undefined,
       inr_cardSales = Given 5 \<rparr>"

text \<open>The scenario's tank with a stock entry of 0.10 litres opening stock and 0.20 litres receipt, and no reading.\<close>

definition oneTenth :: rat where
  "oneTenth = 10 / 100"

definition twoTenths :: rat where
  "twoTenths = 20 / 100"

definition floatDb :: db where
  "floatDb = (scenarioDb [])
     \<lparr> stockEntries := [entryE \<lparr> se_openingStock := oneTenth, se_receipt := twoTenths \<rparr>] \<rparr>"

text \<open>
  Readings with payments: two of attendant A in the morning shift of 2024-01-02, one of
  attendant B in the evening shift of that day, one of A in the night shift of the day
  before, and one that another outlet owns.
\<close>

definition saleReading ::
  "string \<Rightarrow> string \<Rightarrow> string \<Rightarrow> string \<Rightarrow> string \<Rightarrow> rat option \<Rightarrow> rat option \<Rightarrow> rat \<Rightarrow> nozzleReading" where
  "saleReading rid outlet date shiftType attendant cashAmount upiAmount totalAmount =
     \<lparr> nr_id = rid, nr_retailOutletId = outlet, nr_nozzleId = ''N'', nr_attendantId = attendant,
       nr_shiftType = shiftType, nr_shiftDate = date, nr_previousReading = 0,
       nr_currentReading = 0, nr_testing = None, nr_totalSale = totalAmount,
       nr_cashSales = cashAmount, nr_creditSales = None, nr_upiSales = upiAmount,
       nr_cardSales = None, nr_createdAt = None \<rparr>"

definition staffB :: staff where
  "staffB = \<lparr> staff_id = ''B'', staff_retailOutletId = ''O'', staff_name = ''Bala'',
              staff_role = ''attendant'', staff_isActive = Some True \<rparr>"

definition salesDb :: db where
  "salesDb = (scenarioDb
     [ saleReading ''R1'' ''O'' ''2024-01-02'' ''morning'' ''A'' (Some 100) (Some 75) 175,
       saleReading ''R2'' ''O'' ''2024-01-02'' ''evening'' ''B'' (Some 20) None 20,
       saleReading ''R3'' ''O'' ''2024-01-02'' ''morning'' ''A'' (Some 10) (Some 5) 15,
       saleReading ''R4'' ''O'' ''2024-01-01'' ''night'' ''A'' None (Some 7) 7,
       saleReading ''R5'' ''other'' ''2024-01-02'' ''morning'' ''A'' (Some 1000) None 1000 ])
     \<lparr> staffs := [staffA, staffB] \<rparr>"

text \<open>
  The last day of March 2023, at 10:00, and two shift-sales rows of the outlet: one of the
  first of March and one of the day before.
\<close>

definition marchClock :: clock where
  "marchClock =
     \<lparr> now = (''2023-03-31'', 36000000), today = ''2023-03-31'',
       newDate = \<lparr> date_year = 2023, date_month = 2, date_day = 31, date_millis = 36000000 \<rparr> \<rparr>"

definition marchDb :: db where
  "marchDb = (scenarioDb []) \<lparr> shiftSalesRows :=
     [ \<lparr> ss_id = ''M1'', ss_retailOutletId = ''O'', ss_staffId = ''A'',
         ss_shiftDate = (''2023-03-01'', 0), ss_shiftType = ''morning'',
         ss_startTime = (''2023-03-01'', 21600000), ss_endTime = (''2023-03-01'', 64800000),
         ss_cashSales = Some 100, ss_creditSales = Some 0, ss_upiSales = Some 0,
         ss_cardSales = Some 0, ss_totalSales = Some 100, ss_notes = None,
         ss_createdAt = None \<rparr>,
       \<lparr> ss_id = ''M2'', ss_retailOutletId = ''O'', ss_staffId = ''A'',
         ss_shiftDate = (''2023-03-30'', 0), ss_shiftType = ''morning'',
         ss_startTime = (''2023-03-30'', 21600000), ss_endTime = (''2023-03-30'', 64800000),
         ss_cashSales = Some 50, ss_creditSales = Some 0, ss_upiSales = Some 0,
         ss_cardSales = Some 0, ss_totalSales = Some 50, ss_notes = None,
         ss_createdAt = None \<rparr> ] \<rparr>"

text \<open>
  Shifts of manager M: a morning shift as \<open>submitShiftData\<close> inserts it, with the
  column default \<open>[]\<close> for its rates, and an evening shift of the same day with one
  rate, updated later.
\<close>

definition rateP :: productRate where
  "rateP = \<lparr> rate_productId = ''P'', rate_productName = ''petrol'', rate_rate = 100 \<rparr>"

definition shiftSubmitted :: shift where
  "shiftSubmitted =
     \<lparr> shift_id = ''S1'', shift_managerId = ''M'', shift_shiftType = ''morning'',
       shift_shiftDate = Some ''2024-01-02'', shift_status = ''submitted'',
       shift_productRates = Some [], shift_createdAt = (''2024-01-02'', 21600000),
       shift_updatedAt = (''2024-01-02'', 21600000) \<rparr>"

definition shiftWithRates :: shift where
  "shiftWithRates =
     \<lparr> shift_id = ''S2'', shift_managerId = ''M'', shift_shiftType = ''evening'',
       shift_shiftDate = None, shift_status = ''not-started'',
       shift_productRates = Some [rateP], shift_createdAt = (''2024-01-02'', 50400000),
       shift_updatedAt = (''2024-01-02'', 50400000) \<rparr>"

definition ratesDb :: db where
  "ratesDb = (scenarioDb []) \<lparr> shifts := [shiftSubmitted, shiftWithRates] \<rparr>"

text \<open>A date input that reads two spellings of the second of January 2024 and nothing else.\<close>

definition sampleDateInput :: "string \<Rightarrow> string option" where
  "sampleDateInput s =
     (if s = ''2024-01-02'' \<or> s = ''2024-1-2'' then Some ''2024-01-02'' else None)"

text \<open>
  The scenario with a reading that another outlet owns, entered on the scenario's nozzle;
  and two states that differ in the records of another outlet only: the outlet with its
  tank X, the tank's product, nozzle and stock entry, an attendant with a reading, and a
  shift-sales row.
\<close>

definition foreignReading :: nozzleReading where
  "foreignReading = (meterReading ''R9'' ''2024-01-02'' 300 350 None)
     \<lparr> nr_retailOutletId := ''other'', nr_attendantId := ''AX'' \<rparr>"

definition leakDb :: db where
  "leakDb = (scenarioDb (scenarioReadings @ [foreignReading]))
     \<lparr> retailOutlets := retailOutlets (scenarioDb []) @ [outletOther],
       staffs := [staffA, staffX] \<rparr>"

definition nozzleX :: nozzle where
  "nozzleX = \<lparr> nozzle_id = ''NX'', nozzle_dispensingUnitId = ''UX'', nozzle_tankId = ''X'',
               nozzle_nozzleNumber = 1, nozzle_isActive = Some True \<rparr>"

definition ownDb :: db where
  "ownDb = (scenarioDb scenarioReadings) \<lparr> shiftSalesRows := take 2 (shiftSalesRows statsDb) \<rparr>"

definition otherOutletDb :: db where
  "otherOutletDb = ownDb
     \<lparr> retailOutlets := retailOutlets ownDb @ [outletOther],
       tanks := [tankT \<lparr> tank_id := ''X'', tank_retailOutletId := ''other'', tank_productId := ''PX'' \<rparr>,
                 tankT],
       products := [productP, productP \<lparr> product_id := ''PX'', product_retailOutletId := ''other'' \<rparr>],
       nozzles := [nozzleX, nozzleN],
       staffs := [staffA, staffX],
       nozzleReadings := (meterReading ''RX'' ''2024-01-02'' 0 900 None)
                           \<lparr> nr_retailOutletId := ''other'', nr_nozzleId := ''NX'',
                             nr_attendantId := ''AX'' \<rparr>
                         # scenarioReadings,
       stockEntries := [entryE, entryE \<lparr> se_id := ''EX'', se_retailOutletId := ''other'',
                                         se_tankId := ''X'', se_managerId := ''AX'',
                                         se_shiftDate := ''2024-01-05'' \<rparr>],
       shiftSalesRows := shiftSalesRows statsDb \<rparr>"

section \<open>Properties of the SQL fragment\<close>

lemma set_insertBy: "set (insertBy le x xs) = insert x (set xs)"
  by (induction xs) auto

lemma set_orderBy: "set (orderBy le xs) = set xs"
  by (induction xs) (simp_all add: orderBy_def set_insertBy)

lemma length_insertBy: "length (insertBy le x xs) = Suc (length xs)"
  by (induction xs) auto

lemma length_orderBy: "length (orderBy le xs) = length xs"
  by (induction xs) (simp_all add: orderBy_def length_insertBy)

lemma sorted_insertBy:
  assumes tot: "\<And>a b. le a b \<or> le b a" and tr: "\<And>a b c. le a b \<Longrightarrow> le b c \<Longrightarrow> le a c"
  shows "sorted_wrt le xs \<Longrightarrow> sorted_wrt le (insertBy le x xs)"
proof (induction xs)
  case Nil
  then show ?case by simp
next
  case (Cons y ys)
  show ?case
  proof (cases "le x y")
    case True
    then have "\<forall>z \<in> set ys. le x z" using Cons.prems tr by auto
    with True Cons.prems show ?thesis by simp
  next
    case False
    then have "le y x" using tot by blast
    with False Cons show ?thesis by (auto simp: set_insertBy)
  qed
qed

lemma sorted_orderBy:
  assumes tot: "\<And>a b. le a b \<or> le b a" and tr: "\<And>a b c. le a b \<Longrightarrow> le b c \<Longrightarrow> le a c"
  shows "sorted_wrt le (orderBy le xs)"
proof (induction xs)
  case Nil
  then show ?case by (simp add: orderBy_def)
next
  case (Cons x xs)
  have "sorted_wrt le (insertBy le x (orderBy le xs))"
    using tot tr Cons.IH by (rule sorted_insertBy)
  then show ?case by (simp add: orderBy_def)
qed

lemma take1_sorted:
  assumes "sorted_wrt le xs" and "take 1 xs = [x]"
  shows "x \<in> set xs \<and> (\<forall>y \<in> set xs. y = x \<or> le x y)"
  using assms by (cases xs) auto

lemma sqlSum_Some: "COALESCE (sqlSum (map (\<lambda>x. Some (f x)) xs)) 0 = sum_list (map f xs)"
  by (induction xs) (auto simp: COALESCE_def split: option.splits)

lemma orZero_sqlSum: "orZero (sqlSum vs) = sum_list (map orZero vs)"
proof (induction vs)
  case Nil
  then show ?case by (simp add: orZero_def)
next
  case (Cons v vs)
  then show ?case by (cases v) (auto simp: orZero_def split: option.splits)
qed

lemma unique_match:
  assumes "distinct (map f ys)"
  shows "map (\<lambda>_. r) (filter (\<lambda>y. k = f y \<and> R y) ys)
         = (if \<exists>y \<in> set ys. f y = k \<and> R y then [r] else [])"
  using assms
proof (induction ys)
  case Nil
  then show ?case by simp
next
  case (Cons y ys)
  show ?case
  proof (cases "k = f y")
    case True
    moreover have "f y \<notin> set (map f ys)" using Cons.prems by simp
    ultimately have none: "\<forall>y' \<in> set ys. f y' \<noteq> k" by (metis image_eqI set_map)
    then have "filter (\<lambda>y. k = f y \<and> R y) ys = []" by (auto simp: filter_empty_conv)
    with True none show ?thesis by auto
  next
    case False
    with Cons show ?thesis by auto
  qed
qed

lemma fst_filter_innerJoin:
  assumes "distinct (map f ys)"
  shows "map fst (filter P (innerJoin xs ys (\<lambda>x y. g x = f y)))
         = filter (\<lambda>x. \<exists>y \<in> set ys. f y = g x \<and> P (x, y)) xs"
proof (induction xs)
  case Nil
  then show ?case by (simp add: innerJoin_def)
next
  case (Cons x xs)
  have "map fst (filter P (map (Pair x) (filter (\<lambda>y. g x = f y) ys)))
        = map (\<lambda>_. x) (filter (\<lambda>y. g x = f y \<and> P (x, y)) ys)"
    by (simp add: filter_map comp_def conj_commute)
  also have "\<dots> = (if \<exists>y \<in> set ys. f y = g x \<and> P (x, y) then [x] else [])"
    using assms by (rule unique_match)
  finally have one: "map fst (filter P (map (Pair x) (filter (\<lambda>y. g x = f y) ys)))
        = (if \<exists>y \<in> set ys. f y = g x \<and> P (x, y) then [x] else [])" .
  have "innerJoin (x # xs) ys (\<lambda>x y. g x = f y)
        = map (Pair x) (filter (\<lambda>y. g x = f y) ys) @ innerJoin xs ys (\<lambda>x y. g x = f y)"
    by (simp add: innerJoin_def)
  then show ?case using one Cons.IH by auto
qed

lemma innerJoin_Cons:
  "innerJoin (x # xs) ys on = map (Pair x) (filter (on x) ys) @ innerJoin xs ys on"
  by (simp add: innerJoin_def)

lemma filter_Pair: "filter Q (map (Pair x) zs) = map (Pair x) (filter (\<lambda>y. Q (x, y)) zs)"
  by (induction zs) auto

lemma filter_innerJoin_left:
  assumes "\<And>x y. x \<in> set xs \<Longrightarrow> y \<in> set ys \<Longrightarrow> on x y \<Longrightarrow> Q (x, y) \<Longrightarrow> P x"
  shows "filter Q (innerJoin xs ys on) = filter Q (innerJoin (filter P xs) ys on)"
  using assms
proof (induction xs)
  case Nil
  then show ?case by (simp add: innerJoin_def)
next
  case (Cons x xs)
  have tail: "filter Q (innerJoin xs ys on) = filter Q (innerJoin (filter P xs) ys on)"
    using Cons.prems by (intro Cons.IH) auto
  show ?case
  proof (cases "P x")
    case True
    with tail show ?thesis by (simp add: innerJoin_Cons)
  next
    case False
    then have "\<forall>y \<in> set ys. \<not> (on x y \<and> Q (x, y))" using Cons.prems by auto
    then have "filter (\<lambda>y. Q (x, y)) (filter (on x) ys) = []"
      by (auto simp: filter_empty_conv)
    with False tail show ?thesis by (simp add: innerJoin_Cons filter_Pair)
  qed
qed

lemma filter_innerJoin_right:
  assumes "\<And>x y. x \<in> set xs \<Longrightarrow> y \<in> set ys \<Longrightarrow> on x y \<Longrightarrow> Q (x, y) \<Longrightarrow> R y"
  shows "filter Q (innerJoin xs ys on) = filter Q (innerJoin xs (filter R ys) on)"
  using assms
proof (induction xs)
  case Nil
  then show ?case by (simp add: innerJoin_def)
next
  case (Cons x xs)
  have tail: "filter Q (innerJoin xs ys on) = filter Q (innerJoin xs (filter R ys) on)"
    using Cons.prems by (intro Cons.IH) auto
  have "filter (\<lambda>y. Q (x, y)) (filter (on x) ys)
        = filter (\<lambda>y. Q (x, y)) (filter (on x) (filter R ys))"
    using Cons.prems by (auto intro!: filter_cong)
  with tail show ?case by (simp add: innerJoin_Cons filter_Pair)
qed

section \<open>Stock reconciliation\<close>

lemmas scenario_defs = scenarioDb_def scenarioClock_def tankT_def productP_def nozzleN_def
  staffA_def entryE_def meterReading_def

lemmas stock_defs = getTanksByRetailOutletId_def tanksWithProduct_def tankCurrentStock_def
  latestStockEntry_def totalDispensed_def dispensedRows_def innerJoin_def orderBy_def
  selectTank_def first_def orElse_def orZero_def COALESCE_def tankWithProduct.defs tankWithStock.defs

lemma latestStockEntry_cases:
  "(latestStockEntry d tankId = [] \<and> (\<forall>e \<in> set (stockEntries d). se_tankId e \<noteq> tankId))
   \<or> (\<exists>e. latestStockEntry d tankId = [e] \<and> isLatestEntry d tankId e)"
proof -
  define le where "le = (\<lambda>(a :: stockEntry) (b :: stockEntry). (se_shiftDate b, se_createdAt b) \<le> (se_shiftDate a, se_createdAt a))"
  define es where "es = filter (\<lambda>e. se_tankId e = tankId) (stockEntries d)"
  define xs where "xs = orderBy le es"
  have latest: "latestStockEntry d tankId = take 1 xs"
    by (simp add: latestStockEntry_def xs_def es_def le_def)
  have srt: "sorted_wrt le xs"
    unfolding xs_def by (rule sorted_orderBy) (auto simp: le_def)
  have set_xs: "set xs = set es" by (simp add: xs_def set_orderBy)
  show ?thesis
  proof (cases xs)
    case Nil
    then have "set es = {}" using set_xs by simp
    then have "\<forall>e \<in> set (stockEntries d). se_tankId e \<noteq> tankId"
      by (auto simp: es_def filter_empty_conv)
    with Nil latest show ?thesis by simp
  next
    case (Cons x rest)
    then have t1: "take 1 xs = [x]" by simp
    from take1_sorted [OF srt t1]
    have "x \<in> set es" and mx: "\<forall>y \<in> set es. y = x \<or> le x y" using set_xs by auto
    then have "isLatestEntry d tankId x"
      by (auto simp: isLatestEntry_def es_def le_def)
    with t1 latest show ?thesis by auto
  qed
qed

lemma tankCurrentStock_no_entry:
  assumes "latestStockEntry d tankId = []"
  shows "tankCurrentStock clk d tankId = max 0 (0 + 0 - totalDispensed d tankId (today clk))"
  using assms by (simp add: tankCurrentStock_def first_def orElse_def orZero_def)

lemma tankCurrentStock_entry:
  assumes "latestStockEntry d tankId = [e]" and "se_shiftDate e \<noteq> []"
  shows "tankCurrentStock clk d tankId
         = max 0 (se_openingStock e + se_receipt e - totalDispensed d tankId (se_shiftDate e))"
  using assms by (simp add: tankCurrentStock_def first_def orElse_def orZero_def)

lemma tankCurrentStock_nonneg: "0 \<le> tankCurrentStock clk d tankId"
  by (simp add: tankCurrentStock_def Let_def)

lemma set_innerJoin: "set (innerJoin xs ys on) = {(x, y). x \<in> set xs \<and> y \<in> set ys \<and> on x y}"
  by (auto simp: innerJoin_def)

lemma set_tanksWithProduct:
  "set (tanksWithProduct d outlet)
   = {selectTank (t, p) | t p. t \<in> set (tanks d) \<and> p \<in> set (products d)
        \<and> tank_productId t = product_id p \<and> tank_retailOutletId t = outlet
        \<and> tank_isActive t = Some True}"
  by (fastforce simp: tanksWithProduct_def set_orderBy set_innerJoin image_iff)

lemma tp_id_selectTank: "tp_id (selectTank (t, p)) = tank_id t"
  by (simp add: selectTank_def)

lemma in_getTanks:
  "tw \<in> set (getTanksByRetailOutletId clk d outlet) \<longleftrightarrow>
   (\<exists>tp \<in> set (tanksWithProduct d outlet).
      tw = tankWithProduct.extend tp \<lparr> currentStock = tankCurrentStock clk d (tp_id tp) \<rparr>)"
  by (auto simp: getTanksByRetailOutletId_def)

lemma extend_sel:
  "currentStock (tankWithProduct.extend tp \<lparr> currentStock = c \<rparr>) = c"
  "tp_id (tankWithProduct.extend tp \<lparr> currentStock = c \<rparr>) = tp_id tp"
  by (simp_all add: tankWithProduct.defs tankWithStock.defs)

lemma getTanks_stock:
  assumes "tw \<in> set (getTanksByRetailOutletId clk d outlet)"
  shows "currentStock tw = tankCurrentStock clk d (tp_id tw)"
  using assms by (auto simp: in_getTanks extend_sel)

lemma dispensedRows_member:
  "(r, n) \<in> set (dispensedRows d tankId c) \<longleftrightarrow>
   r \<in> set (nozzleReadings d) \<and> n \<in> set (nozzles d) \<and> nr_nozzleId r = nozzle_id n
   \<and> nozzle_tankId n = tankId \<and> c \<le> nr_shiftDate r"
  by (auto simp: dispensedRows_def set_innerJoin)

lemma dispensedRows_empty:
  assumes "readingsOnTank d tankId = []"
  shows "dispensedRows d tankId c = []"
proof (cases "dispensedRows d tankId c")
  case Nil
  then show ?thesis .
next
  case (Cons x xs)
  obtain r n where "x = (r, n)" by (cases x)
  with Cons have "(r, n) \<in> set (dispensedRows d tankId c)" by simp
  then have "r \<in> set (readingsOnTank d tankId)"
    by (auto simp: dispensedRows_member readingsOnTank_def)
  with assms show ?thesis by simp
qed

lemma active_tank_reported:
  assumes t: "t \<in> set (tanks d)"
    and own: "tank_retailOutletId t = outlet" and active: "tank_isActive t = Some True"
    and p: "p \<in> set (products d)" "product_id p = tank_productId t"
  shows "\<exists>tw \<in> set (getTanksByRetailOutletId clk d outlet). tp_id tw = tank_id t"
proof -
  from t own active p have "selectTank (t, p) \<in> set (tanksWithProduct d outlet)"
    unfolding set_tanksWithProduct mem_Collect_eq
    by (intro exI [of _ t] exI [of _ p]) simp
  then have "tankWithProduct.extend (selectTank (t, p))
               \<lparr> currentStock = tankCurrentStock clk d (tp_id (selectTank (t, p))) \<rparr>
             \<in> set (getTanksByRetailOutletId clk d outlet)"
    by (auto simp: in_getTanks)
  then show ?thesis
    by (rule rev_bexI) (simp add: extend_sel tp_id_selectTank)
qed

section \<open>Sales aggregation\<close>

lemma orZero_sqlSum_field: "orZero (sqlSum (map field rows)) = missingAsZero field rows"
proof -
  have "orZero (sqlSum (map field rows)) = sum_list (map orZero (map field rows))"
    by (rule orZero_sqlSum)
  then show ?thesis by (simp add: missingAsZero_def comp_def orZero_def)
qed


lemmas sales_defs = getShiftSalesByRetailOutletId_def shiftGroups_def readingsWithStaff_def
  groupBy_def groupKey_def selectGroup_def toShiftSales_def atTime_def innerJoin_def orderBy_def
  orZero_def

lemmas salesDb_defs = salesDb_def saleReading_def staffB_def scenario_defs

lemma distinct_map_insertBy:
  "distinct (map f (insertBy le x xs)) \<longleftrightarrow> f x \<notin> f ` set xs \<and> distinct (map f xs)"
  by (induction xs) (auto simp: set_insertBy)

lemma distinct_map_orderBy: "distinct (map f (orderBy le xs)) \<longleftrightarrow> distinct (map f xs)"
  by (induction xs) (simp_all add: orderBy_def distinct_map_insertBy set_orderBy [unfolded orderBy_def])

lemma readingsWithStaff_member:
  "(r, s) \<in> set (readingsWithStaff d outlet) \<longleftrightarrow>
   r \<in> set (nozzleReadings d) \<and> s \<in> set (staffs d) \<and> nr_attendantId r = staff_id s
   \<and> nr_retailOutletId r = outlet"
  by (auto simp: readingsWithStaff_def set_innerJoin)

lemma fst_readingsWithStaff:
  assumes pk: "distinct (map staff_id (staffs d))"
    and fk: "\<forall>r \<in> set (nozzleReadings d). nr_retailOutletId r = outlet
               \<longrightarrow> (\<exists>s \<in> set (staffs d). staff_id s = nr_attendantId r)"
  shows "map fst (readingsWithStaff d outlet)
         = filter (\<lambda>r. nr_retailOutletId r = outlet) (nozzleReadings d)"
proof -
  have "map fst (readingsWithStaff d outlet)
        = filter (\<lambda>r. \<exists>s \<in> set (staffs d). staff_id s = nr_attendantId r
                        \<and> nr_retailOutletId (fst (r, s)) = outlet) (nozzleReadings d)"
    unfolding readingsWithStaff_def using pk by (rule fst_filter_innerJoin)
  also have "\<dots> = filter (\<lambda>r. nr_retailOutletId r = outlet) (nozzleReadings d)"
    using fk by (intro filter_cong) auto
  finally show ?thesis .
qed

lemma same_attendant_same_staff:
  assumes pk: "distinct (map staff_id (staffs d))"
    and "(r, s) \<in> set (readingsWithStaff d outlet)"
    and "(r', s') \<in> set (readingsWithStaff d outlet)"
    and "nr_attendantId r = nr_attendantId r'"
  shows "s = s'"
proof -
  have "inj_on staff_id (set (staffs d))" using pk by (simp add: distinct_map)
  moreover have "s \<in> set (staffs d)" "s' \<in> set (staffs d)" "staff_id s = staff_id s'"
    using assms(2-4) by (auto simp: readingsWithStaff_member)
  ultimately show ?thesis by (meson inj_onD)
qed

lemma groupKey_readingKey:
  assumes pk: "distinct (map staff_id (staffs d))"
    and "row \<in> set (readingsWithStaff d outlet)"
    and "row' \<in> set (readingsWithStaff d outlet)"
  shows "groupKey row = groupKey row' \<longleftrightarrow> readingKey (fst row) = readingKey (fst row')"
proof
  assume "groupKey row = groupKey row'"
  then show "readingKey (fst row) = readingKey (fst row')"
    by (simp add: groupKey_def readingKey_def)
next
  assume eq: "readingKey (fst row) = readingKey (fst row')"
  obtain r s r' s' where rows: "row = (r, s)" "row' = (r', s')"
    by (cases row, cases row') auto
  from eq rows have "nr_attendantId r = nr_attendantId r'" by (simp add: readingKey_def)
  with pk assms(2,3) rows have "s = s'" by (auto intro: same_attendant_same_staff)
  with eq rows show "groupKey row = groupKey row'" by (simp add: groupKey_def readingKey_def)
qed

lemma group_rows_readings:
  assumes pk: "distinct (map staff_id (staffs d))"
    and fk: "\<forall>r \<in> set (nozzleReadings d). nr_retailOutletId r = outlet
               \<longrightarrow> (\<exists>s \<in> set (staffs d). staff_id s = nr_attendantId r)"
    and row0: "row0 \<in> set (readingsWithStaff d outlet)"
  shows "map fst (filter (\<lambda>row. groupKey row = groupKey row0) (readingsWithStaff d outlet))
         = readingsOfGroup d outlet (readingKey (fst row0))"
proof -
  have "filter (\<lambda>row. groupKey row = groupKey row0) (readingsWithStaff d outlet)
        = filter (\<lambda>row. readingKey (fst row) = readingKey (fst row0)) (readingsWithStaff d outlet)"
    using groupKey_readingKey [OF pk _ row0] by (intro filter_cong) auto
  then have "map fst (filter (\<lambda>row. groupKey row = groupKey row0) (readingsWithStaff d outlet))
        = filter (\<lambda>r. readingKey r = readingKey (fst row0)) (map fst (readingsWithStaff d outlet))"
    by (simp add: filter_map comp_def)
  also have "\<dots> = readingsOfGroup d outlet (readingKey (fst row0))"
    unfolding fst_readingsWithStaff [OF pk fk] readingsOfGroup_def
    by (simp add: conj_commute)
  finally show ?thesis .
qed

text \<open>The summary produced for the group of a joined row.\<close>

lemma summaries_from_rows:
  assumes "g \<in> set (getShiftSalesByRetailOutletId clk d outlet limit)"
  shows "\<exists>row0 \<in> set (readingsWithStaff d outlet).
           g = toShiftSales clk outlet
                 (selectGroup (groupKey row0,
                    filter (\<lambda>row. groupKey row = groupKey row0) (readingsWithStaff d outlet)))"
proof -
  from assms obtain sg where sg: "g = toShiftSales clk outlet sg"
    and "sg \<in> set (shiftGroups d outlet (case limit of None \<Rightarrow> 10 | Some n \<Rightarrow> n))"
    by (auto simp: getShiftSalesByRetailOutletId_def)
  then have "sg \<in> set (map selectGroup (groupBy groupKey (readingsWithStaff d outlet)))"
    unfolding shiftGroups_def using set_orderBy in_set_takeD by fastforce
  moreover have "set (map selectGroup (groupBy groupKey (readingsWithStaff d outlet)))
        = (\<lambda>row0. selectGroup (groupKey row0,
             filter (\<lambda>row. groupKey row = groupKey row0) (readingsWithStaff d outlet)))
          ` set (readingsWithStaff d outlet)"
    by (simp add: groupBy_def image_image)
  ultimately obtain row0 where "row0 \<in> set (readingsWithStaff d outlet)"
    and "sg = selectGroup (groupKey row0,
             filter (\<lambda>row. groupKey row = groupKey row0) (readingsWithStaff d outlet))"
    by blast
  with sg show ?thesis by blast
qed

lemma summaryKey_toShiftSales:
  "summaryKey (toShiftSales clk outlet (selectGroup (groupKey row0, rows))) = readingKey (fst row0)"
  by (simp add: summaryKey_def toShiftSales_def selectGroup_def groupKey_def readingKey_def
      atTime_def DATE_def)

lemma sums_toShiftSales:
  "sum_cashSales (toShiftSales clk outlet (selectGroup (k, rows)))
     = missingAsZero nr_cashSales (map fst rows)"
  "sum_creditSales (toShiftSales clk outlet (selectGroup (k, rows)))
     = missingAsZero nr_creditSales (map fst rows)"
  "sum_upiSales (toShiftSales clk outlet (selectGroup (k, rows)))
     = missingAsZero nr_upiSales (map fst rows)"
  "sum_cardSales (toShiftSales clk outlet (selectGroup (k, rows)))
     = missingAsZero nr_cardSales (map fst rows)"
  "sum_totalSales (toShiftSales clk outlet (selectGroup (k, rows)))
     = sum_list (map nr_totalSale (map fst rows))"
proof -
  obtain a b c e where k: "k = (a, b, c, e)" by (cases k) auto
  have opt: "orZero (sqlSum (map (\<lambda>row. field (fst row)) rows)) = missingAsZero field (map fst rows)"
    for field :: "nozzleReading \<Rightarrow> rat option"
    using orZero_sqlSum_field [of "\<lambda>row. field (fst row)" rows]
    by (simp add: missingAsZero_def comp_def)
  have tot: "orZero (sqlSum (map (\<lambda>row. Some (nr_totalSale (fst row))) rows))
             = sum_list (map nr_totalSale (map fst rows))"
    using orZero_sqlSum [of "map (\<lambda>row. Some (nr_totalSale (fst row))) rows"]
    by (simp add: comp_def orZero_def)
  show "sum_cashSales (toShiftSales clk outlet (selectGroup (k, rows)))
     = missingAsZero nr_cashSales (map fst rows)"
    "sum_creditSales (toShiftSales clk outlet (selectGroup (k, rows)))
     = missingAsZero nr_creditSales (map fst rows)"
    "sum_upiSales (toShiftSales clk outlet (selectGroup (k, rows)))
     = missingAsZero nr_upiSales (map fst rows)"
    "sum_cardSales (toShiftSales clk outlet (selectGroup (k, rows)))
     = missingAsZero nr_cardSales (map fst rows)"
    "sum_totalSales (toShiftSales clk outlet (selectGroup (k, rows)))
     = sum_list (map nr_totalSale (map fst rows))"
    using opt tot by (simp_all add: k toShiftSales_def selectGroup_def)
qed

lemma summary_keys:
  "map summaryKey (getShiftSalesByRetailOutletId clk d outlet limit)
   = take (case limit of None \<Rightarrow> 10 | Some n \<Rightarrow> n)
       (map (\<lambda>sg. (sg_shiftDate sg, sg_shiftType sg, sg_staffId sg))
          (orderBy (\<lambda>a b. sg_shiftDate b < sg_shiftDate a
                        \<or> (sg_shiftDate a = sg_shiftDate b \<and> sg_shiftType a \<le> sg_shiftType b))
             (map selectGroup (groupBy groupKey (readingsWithStaff d outlet)))))"
  by (simp add: getShiftSalesByRetailOutletId_def shiftGroups_def take_map comp_def
      summaryKey_def toShiftSales_def atTime_def DATE_def)

lemma group_keys:
  "map (\<lambda>sg. (sg_shiftDate sg, sg_shiftType sg, sg_staffId sg))
     (map selectGroup (groupBy groupKey rows))
   = map (\<lambda>k. (fst k, fst (snd k), fst (snd (snd k)))) (remdups (map groupKey rows))"
  by (simp add: groupBy_def selectGroup_def comp_def case_prod_beta)

lemma key3_groupKey:
  "(\<lambda>k. (fst k, fst (snd k), fst (snd (snd k)))) (groupKey row) = readingKey (fst row)"
  by (simp add: groupKey_def readingKey_def)

lemma inj_on_key3:
  assumes pk: "distinct (map staff_id (staffs d))"
  shows "inj_on (\<lambda>k. (fst k, fst (snd k), fst (snd (snd k))))
           (groupKey ` set (readingsWithStaff d outlet))"
proof (rule inj_onI)
  fix k k'
  assume "k \<in> groupKey ` set (readingsWithStaff d outlet)"
    and "k' \<in> groupKey ` set (readingsWithStaff d outlet)"
    and eq: "(fst k, fst (snd k), fst (snd (snd k))) = (fst k', fst (snd k'), fst (snd (snd k')))"
  then obtain row row' where rows: "row \<in> set (readingsWithStaff d outlet)" "k = groupKey row"
    "row' \<in> set (readingsWithStaff d outlet)" "k' = groupKey row'"
    by blast
  with eq have "readingKey (fst row) = readingKey (fst row')"
    using key3_groupKey [of row] key3_groupKey [of row'] by simp
  with rows show "k = k'" using groupKey_readingKey [OF pk rows(1) rows(3)] by simp
qed

lemma distinct_summary_keys:
  assumes pk: "distinct (map staff_id (staffs d))"
  shows "distinct (map summaryKey (getShiftSalesByRetailOutletId clk d outlet limit))"
proof -
  have "distinct (map (\<lambda>k. (fst k, fst (snd k), fst (snd (snd k))))
                    (remdups (map groupKey (readingsWithStaff d outlet))))"
    using inj_on_key3 [OF pk, of outlet] by (simp add: distinct_map)
  then show ?thesis
    unfolding summary_keys
    by (intro distinct_take) (simp add: distinct_map_orderBy flip: group_keys)
qed

lemma number_of_groups:
  assumes pk: "distinct (map staff_id (staffs d))"
    and fk: "\<forall>r \<in> set (nozzleReadings d). nr_retailOutletId r = outlet
               \<longrightarrow> (\<exists>s \<in> set (staffs d). staff_id s = nr_attendantId r)"
  shows "length (groupBy groupKey (readingsWithStaff d outlet))
         = length (remdups (map readingKey
             (filter (\<lambda>r. nr_retailOutletId r = outlet) (nozzleReadings d))))"
proof -
  let ?rows = "readingsWithStaff d outlet"
  let ?key3 = "\<lambda>k :: string \<times> string \<times> string \<times> string. (fst k, fst (snd k), fst (snd (snd k)))"
  have "length (groupBy groupKey ?rows) = card (groupKey ` set ?rows)"
    by (simp add: groupBy_def length_remdups_card_conv)
  also have "\<dots> = card (?key3 ` groupKey ` set ?rows)"
    using inj_on_key3 [OF pk, of outlet] by (simp add: card_image)
  also have "?key3 ` groupKey ` set ?rows = readingKey ` set (map fst ?rows)"
    by (simp add: image_image key3_groupKey)
  also have "card \<dots> = length (remdups (map readingKey
             (filter (\<lambda>r. nr_retailOutletId r = outlet) (nozzleReadings d))))"
    unfolding fst_readingsWithStaff [OF pk fk] by (simp add: length_remdups_card_conv)
  finally show ?thesis .
qed


lemma summaryOrder_toShiftSales:
  "summaryOrder (toShiftSales clk outlet a) (toShiftSales clk outlet b)
   \<longleftrightarrow> sg_shiftDate b < sg_shiftDate a
       \<or> (sg_shiftDate a = sg_shiftDate b \<and> sg_shiftType a \<le> sg_shiftType b)"
  by (simp add: summaryOrder_def toShiftSales_def atTime_def DATE_def)

lemma sorted_shiftGroups:
  "sorted_wrt (\<lambda>a b. sg_shiftDate b < sg_shiftDate a
                     \<or> (sg_shiftDate a = sg_shiftDate b \<and> sg_shiftType a \<le> sg_shiftType b))
     (shiftGroups d outlet n)"
  unfolding shiftGroups_def
  by (intro sorted_wrt_take sorted_orderBy) auto


section \<open>Tenant scoping\<close>

lemma tanksWithProduct_scoped:
  assumes "referencesWithinOutlet outlet d"
  shows "tanksWithProduct d outlet
         = map selectTank
             (orderBy (\<lambda>a b. tank_tankNumber (fst a) \<le> tank_tankNumber (fst b))
               (filter (\<lambda>row. tank_retailOutletId (fst row) = outlet
                              \<and> tank_isActive (fst row) = Some True)
                 (innerJoin (filter (\<lambda>t. tank_retailOutletId t = outlet) (tanks d))
                            (filter (\<lambda>p. product_retailOutletId p = outlet) (products d))
                            (\<lambda>t p. tank_productId t = product_id p))))"
proof -
  let ?Q = "\<lambda>row :: tank \<times> product. tank_retailOutletId (fst row) = outlet
                              \<and> tank_isActive (fst row) = Some True"
  let ?on = "\<lambda>t p. tank_productId t = product_id p"
  have "filter ?Q (innerJoin (tanks d) (products d) ?on)
        = filter ?Q (innerJoin (filter (\<lambda>t. tank_retailOutletId t = outlet) (tanks d)) (products d) ?on)"
    by (rule filter_innerJoin_left) simp
  also have "\<dots> = filter ?Q (innerJoin (filter (\<lambda>t. tank_retailOutletId t = outlet) (tanks d))
                         (filter (\<lambda>p. product_retailOutletId p = outlet) (products d)) ?on)"
    using assms by (intro filter_innerJoin_right) (auto simp: referencesWithinOutlet_def)
  finally show ?thesis by (simp add: tanksWithProduct_def)
qed

lemma tankEntries_scoped:
  assumes "referencesWithinOutlet outlet d" and "tankId \<in> set (outletTankIds d outlet)"
  shows "filter (\<lambda>e. se_tankId e = tankId) (stockEntries d)
         = filter (\<lambda>e. se_tankId e = tankId)
             (filter (\<lambda>e. se_retailOutletId e = outlet) (stockEntries d))"
  using assms unfolding filter_filter
  by (intro filter_cong) (auto simp: referencesWithinOutlet_def)

lemma dispensedRows_scoped:
  assumes "referencesWithinOutlet outlet d" and "tankId \<in> set (outletTankIds d outlet)"
  shows "dispensedRows d tankId cutoff
         = filter (\<lambda>row. nozzle_tankId (snd row) = tankId \<and> cutoff \<le> nr_shiftDate (fst row))
             (innerJoin (filter (\<lambda>r. nr_retailOutletId r = outlet) (nozzleReadings d))
                (filter (\<lambda>n. nozzle_tankId n \<in> set (outletTankIds d outlet)) (nozzles d))
                (\<lambda>r n. nr_nozzleId r = nozzle_id n))"
proof -
  let ?Q = "\<lambda>row :: nozzleReading \<times> nozzle.
              nozzle_tankId (snd row) = tankId \<and> cutoff \<le> nr_shiftDate (fst row)"
  let ?on = "\<lambda>r n. nr_nozzleId r = nozzle_id n"
  have "filter ?Q (innerJoin (nozzleReadings d) (nozzles d) ?on)
        = filter ?Q (innerJoin (filter (\<lambda>r. nr_retailOutletId r = outlet) (nozzleReadings d))
                      (nozzles d) ?on)"
    using assms by (intro filter_innerJoin_left) (auto simp: referencesWithinOutlet_def)
  also have "\<dots> = filter ?Q (innerJoin (filter (\<lambda>r. nr_retailOutletId r = outlet) (nozzleReadings d))
                (filter (\<lambda>n. nozzle_tankId n \<in> set (outletTankIds d outlet)) (nozzles d)) ?on)"
    using assms(2) by (intro filter_innerJoin_right) auto
  finally show ?thesis by (simp add: dispensedRows_def)
qed

lemma readingsWithStaff_scoped:
  assumes "referencesWithinOutlet outlet d"
  shows "readingsWithStaff d outlet
         = filter (\<lambda>row. nr_retailOutletId (fst row) = outlet)
             (innerJoin (filter (\<lambda>r. nr_retailOutletId r = outlet) (nozzleReadings d))
                        (filter (\<lambda>s. staff_retailOutletId s = outlet) (staffs d))
                        (\<lambda>r s. nr_attendantId r = staff_id s))"
proof -
  let ?Q = "\<lambda>row :: nozzleReading \<times> staff. nr_retailOutletId (fst row) = outlet"
  let ?on = "\<lambda>r s. nr_attendantId r = staff_id s"
  have "filter ?Q (innerJoin (nozzleReadings d) (staffs d) ?on)
        = filter ?Q (innerJoin (filter (\<lambda>r. nr_retailOutletId r = outlet) (nozzleReadings d))
                      (staffs d) ?on)"
    by (rule filter_innerJoin_left) simp
  also have "\<dots> = filter ?Q (innerJoin (filter (\<lambda>r. nr_retailOutletId r = outlet) (nozzleReadings d))
                         (filter (\<lambda>s. staff_retailOutletId s = outlet) (staffs d)) ?on)"
    using assms by (intro filter_innerJoin_right) (auto simp: referencesWithinOutlet_def)
  finally show ?thesis by (simp add: readingsWithStaff_def)
qed

lemma shiftSalesSince_scoped:
  "shiftSalesSince d outlet since
   = filter (\<lambda>s. since \<le> ss_shiftDate s)
       (filter (\<lambda>s. ss_retailOutletId s = outlet) (shiftSalesRows d))"
  by (simp add: shiftSalesSince_def conj_commute)

lemma tanksWithProduct_ids:
  assumes "tp \<in> set (tanksWithProduct d outlet)"
  shows "tp_id tp \<in> set (outletTankIds d outlet)"
  using assms by (auto simp: set_tanksWithProduct tp_id_selectTank outletTankIds_def)

lemma tankCurrentStock_agree:
  assumes agree: "agreeOnOutlet outlet d1 d2"
    and refs: "referencesWithinOutlet outlet d1" "referencesWithinOutlet outlet d2"
    and tank: "tankId \<in> set (outletTankIds d1 outlet)"
  shows "tankCurrentStock clk d1 tankId = tankCurrentStock clk d2 tankId"
proof -
  have tank2: "tankId \<in> set (outletTankIds d2 outlet)"
    using agree tank by (simp add: agreeOnOutlet_def outletTankIds_def)
  have "filter (\<lambda>e. se_tankId e = tankId) (stockEntries d1)
        = filter (\<lambda>e. se_tankId e = tankId) (stockEntries d2)"
    using agree by (simp add: tankEntries_scoped [OF refs(1) tank]
        tankEntries_scoped [OF refs(2) tank2] agreeOnOutlet_def)
  then have latest: "latestStockEntry d1 tankId = latestStockEntry d2 tankId"
    by (simp add: latestStockEntry_def)
  have "dispensedRows d1 tankId cutoff = dispensedRows d2 tankId cutoff" for cutoff
    using agree by (simp add: dispensedRows_scoped [OF refs(1) tank]
        dispensedRows_scoped [OF refs(2) tank2] agreeOnOutlet_def)
  then have "totalDispensed d1 tankId cutoff = totalDispensed d2 tankId cutoff" for cutoff
    by (simp add: totalDispensed_def)
  with latest show ?thesis by (simp add: tankCurrentStock_def)
qed


lemmas tenant_defs = ownDb_def otherOutletDb_def leakDb_def foreignReading_def nozzleX_def
  staffX_def outletOther_def
  statsDb_def scenarioReadings_def scenario_defs

lemma funpow_numeral: "(f ^^ numeral k) x = f ((f ^^ pred_numeral k) x)"
  by (simp add: numeral_eq_Suc)

lemmas stats_defs = getShiftSalesStats_def shiftSalesSince_def orZero_def weekAgo_def
  monthAgo_def setDate_def setMonth_def nextDay_def previousDay_def daysInMonth_def
  leapYear_def toTimestamp_def isoDate_def digit_def funpow_numeral

lemmas rates_defs = getLastProductRates_def ratesOf_def latestShift_def orderBy_def DATE_def
  ratesDb_def shiftSubmitted_def shiftWithRates_def rateP_def sampleDateInput_def scenario_defs

section \<open>Doubles and numeric columns\<close>

lemma roundHalfEven_error: "\<bar>of_int (roundHalfEven q) - q\<bar> \<le> 1 / 2"
proof -
  define r where "r = q - of_int \<lfloor>q\<rfloor>"
  have r: "0 \<le> r" "r < 1" unfolding r_def by linarith+
  have q: "q = of_int \<lfloor>q\<rfloor> + r" by (simp add: r_def)
  have "roundHalfEven q = \<lfloor>q\<rfloor> \<and> r \<le> 1 / 2 \<or> roundHalfEven q = \<lfloor>q\<rfloor> + 1 \<and> 1 / 2 \<le> r"
    unfolding roundHalfEven_def Let_def r_def [symmetric] by auto
  then show ?thesis
  proof
    assume "roundHalfEven q = \<lfloor>q\<rfloor> \<and> r \<le> 1 / 2"
    then show ?thesis using r by (subst (2) q) simp
  next
    assume "roundHalfEven q = \<lfloor>q\<rfloor> + 1 \<and> 1 / 2 \<le> r"
    then show ?thesis using r by (subst (2) q) simp
  qed
qed

text \<open>\<open>expo x\<close> is the binary exponent of \<open>x\<close>: \<open>2^(expo x) \<le> x < 2^(expo x + 1)\<close>.\<close>

lemma expo_lower:
  assumes "0 < x"
  shows "power_int 2 (expo x) \<le> x"
proof (cases "1 \<le> x")
  case True
  then have pos: "0 < \<lfloor>x\<rfloor>" by linarith
  then have one: "1 \<le> bitlen \<lfloor>x\<rfloor>" by (auto simp: bitlen_alt_def)
  from pos have "(2 :: int) ^ nat (bitlen \<lfloor>x\<rfloor> - 1) \<le> \<lfloor>x\<rfloor>"
    using bitlen_bounds [of "\<lfloor>x\<rfloor>"] by simp
  then have "of_int ((2 :: int) ^ nat (bitlen \<lfloor>x\<rfloor> - 1)) \<le> (of_int \<lfloor>x\<rfloor> :: rat)"
    by (simp only: of_int_le_iff)
  also have "\<dots> \<le> x" by linarith
  finally have "(2 :: rat) ^ nat (bitlen \<lfloor>x\<rfloor> - 1) \<le> x" by simp
  then show ?thesis using True one by (simp add: expo_def power_int_def)
next
  case False
  define c where "c = \<lceil>1 / x\<rceil>"
  have inv: "1 < 1 / x" using False assms by simp
  then have c2: "1 < c" unfolding c_def by linarith
  then have pos: "0 < c - 1" by simp
  have "c - 1 < 2 ^ nat (bitlen (c - 1))"
    using bitlen_bounds [OF pos] by simp
  then have "c \<le> 2 ^ nat (bitlen (c - 1))" by simp
  then have "(of_int c :: rat) \<le> of_int (2 ^ nat (bitlen (c - 1)))"
    by (simp only: of_int_le_iff)
  moreover have "1 / x \<le> of_int c" unfolding c_def by linarith
  moreover have "(of_int (2 ^ nat (bitlen (c - 1))) :: rat) = 2 ^ nat (bitlen (c - 1))" by simp
  ultimately have le: "1 / x \<le> 2 ^ nat (bitlen (c - 1))" by linarith
  have "1 / (2 :: rat) ^ nat (bitlen (c - 1)) \<le> x"
  proof -
    have "0 < (2 :: rat) ^ nat (bitlen (c - 1))" by simp
    with le assms show ?thesis by (simp add: field_simps)
  qed
  moreover have "expo x = - int (nat (bitlen (c - 1)))"
    using False bitlen_nonneg [of "c - 1"] by (simp add: expo_def c_def)
  ultimately show ?thesis
    by (simp only: power_int_minus power_int_of_nat inverse_eq_divide)
qed

lemma expo_upper:
  assumes "0 < x"
  shows "x < power_int 2 (expo x + 1)"
proof (cases "1 \<le> x")
  case True
  then have pos: "0 < \<lfloor>x\<rfloor>" by linarith
  then have one: "1 \<le> bitlen \<lfloor>x\<rfloor>" by (auto simp: bitlen_alt_def)
  from pos have "\<lfloor>x\<rfloor> < 2 ^ nat (bitlen \<lfloor>x\<rfloor>)"
    using bitlen_bounds [of "\<lfloor>x\<rfloor>"] by simp
  then have "\<lfloor>x\<rfloor> + 1 \<le> 2 ^ nat (bitlen \<lfloor>x\<rfloor>)" by simp
  then have "(of_int (\<lfloor>x\<rfloor> + 1) :: rat) \<le> of_int (2 ^ nat (bitlen \<lfloor>x\<rfloor>))"
    by (simp only: of_int_le_iff)
  moreover have "x < of_int (\<lfloor>x\<rfloor> + 1)" by linarith
  moreover have "(of_int (2 ^ nat (bitlen \<lfloor>x\<rfloor>)) :: rat) = 2 ^ nat (bitlen \<lfloor>x\<rfloor>)" by simp
  ultimately have "x < 2 ^ nat (bitlen \<lfloor>x\<rfloor>)" by linarith
  moreover have "expo x + 1 = int (nat (bitlen \<lfloor>x\<rfloor>))"
    using True one by (simp add: expo_def)
  ultimately show ?thesis by (simp only: power_int_of_nat)
next
  case False
  define c where "c = \<lceil>1 / x\<rceil>"
  define j where "j = nat (bitlen (c - 1) - 1)"
  have inv: "1 < 1 / x" using False assms by simp
  then have c2: "1 < c" unfolding c_def by linarith
  then have pos: "0 < c - 1" by simp
  then have one: "1 \<le> bitlen (c - 1)" by (auto simp: bitlen_alt_def)
  have "2 ^ j \<le> c - 1" unfolding j_def using bitlen_bounds [OF pos] by simp
  then have "(of_int (2 ^ j) :: rat) \<le> of_int (c - 1)" by (simp only: of_int_le_iff)
  moreover have "of_int (c - 1) < 1 / x" unfolding c_def by linarith
  moreover have "(of_int (2 ^ j) :: rat) = 2 ^ j" by simp
  ultimately have "2 ^ j < 1 / x" by linarith
  then have "x < 1 / 2 ^ j" using assms by (simp add: field_simps)
  moreover have "expo x + 1 = - int j"
    using False one by (simp add: expo_def c_def j_def)
  ultimately show ?thesis
    by (simp only: power_int_minus power_int_of_nat inverse_eq_divide)
qed

text \<open>The significand that \<open>toDouble\<close> keeps has 53 bits.\<close>

lemma roundHalfEven_floor: "\<lfloor>q\<rfloor> \<le> roundHalfEven q \<and> roundHalfEven q \<le> \<lfloor>q\<rfloor> + 1"
  by (simp add: roundHalfEven_def Let_def)

lemma toDouble_significand:
  assumes "x \<noteq> 0"
  shows "2 ^ 52 \<le> roundHalfEven (\<bar>x\<bar> / power_int 2 (expo \<bar>x\<bar> - 52))
       \<and> roundHalfEven (\<bar>x\<bar> / power_int 2 (expo \<bar>x\<bar> - 52)) \<le> 2 ^ 53"
proof -
  define e where "e = expo \<bar>x\<bar>"
  define q where "q = \<bar>x\<bar> / power_int 2 (e - 52)"
  have pos: "0 < \<bar>x\<bar>" using assms by simp
  have p: "(0 :: rat) < power_int 2 e" by (simp add: zero_less_power_int)
  have ulp: "power_int (2 :: rat) (e - 52) = power_int 2 e / 2 ^ 52"
    by (simp add: power_int_diff)
  have up: "power_int (2 :: rat) (e + 1) = power_int 2 e * 2"
    by (simp add: power_int_add)
  have "power_int 2 e \<le> \<bar>x\<bar>" "\<bar>x\<bar> < power_int 2 e * 2"
    using expo_lower [OF pos] expo_upper [OF pos] unfolding e_def [symmetric] up by simp_all
  then have "2 ^ 52 \<le> q" "q < 2 ^ 53"
    using p by (simp_all add: q_def ulp field_simps)
  then have "2 ^ 52 \<le> \<lfloor>q\<rfloor>" "\<lfloor>q\<rfloor> < 2 ^ 53" by (simp_all add: le_floor_iff floor_less_iff)
  with roundHalfEven_floor [of q]
  have "2 ^ 52 \<le> roundHalfEven q \<and> roundHalfEven q \<le> 2 ^ 53" by linarith
  then show ?thesis unfolding q_def e_def .
qed

text \<open>The relative error of a rounding to double is at most \<open>2^-53\<close>.\<close>

lemma toDouble_error: "\<bar>toDouble x - x\<bar> \<le> \<bar>x\<bar> / 2 ^ 53"
proof (cases "x = 0")
  case True
  then show ?thesis by (simp add: toDouble_def)
next
  case False
  define e where "e = expo \<bar>x\<bar>"
  define ulp :: rat where "ulp = power_int 2 (e - 52)"
  define q where "q = \<bar>x\<bar> / ulp"
  have ulp_pos: "0 < ulp" by (simp add: ulp_def zero_less_power_int)
  have x_eq: "x = sgn x * q * ulp" using ulp_pos by (simp add: q_def mult_sgn_abs)
  have td: "toDouble x = sgn x * of_int (roundHalfEven q) * ulp"
    using False by (simp add: toDouble_def Let_def ulp_def e_def q_def)
  have "toDouble x - x = sgn x * ulp * (of_int (roundHalfEven q) - q)"
    by (subst (2) x_eq) (simp add: td algebra_simps)
  then have "\<bar>toDouble x - x\<bar> = ulp * \<bar>of_int (roundHalfEven q) - q\<bar>"
    using False ulp_pos by (simp add: abs_mult abs_sgn_eq)
  also have "\<dots> \<le> ulp * (1 / 2)"
    using roundHalfEven_error [of q] ulp_pos by (intro mult_left_mono) auto
  also have "ulp * (1 / 2) = power_int 2 e / 2 ^ 53"
    by (simp add: ulp_def power_int_diff)
  also have "\<dots> \<le> \<bar>x\<bar> / 2 ^ 53"
    using expo_lower [of "\<bar>x\<bar>"] False by (simp add: e_def divide_right_mono)
  finally show ?thesis .
qed

lemma toDouble_minus: "toDouble (- x) = - toDouble x"
  by (simp add: toDouble_def Let_def sgn_minus)

lemma shortestDecimal_round_trip:
  "shortestDecimal x e ks = x \<or> toDouble (shortestDecimal x e ks) = x"
  by (induction ks) (auto simp: Let_def)

text \<open>The string of a double reads back as that double.\<close>

lemma numberToString_round_trip:
  "numberToString x = x \<or> toDouble (numberToString x) = x"
proof (cases "x = 0")
  case True
  then show ?thesis by (simp add: numberToString_def)
next
  case False
  let ?t = "shortestDecimal \<bar>x\<bar> (expo10 \<bar>x\<bar>) [1..<18]"
  from shortestDecimal_round_trip [of "\<bar>x\<bar>" "expo10 \<bar>x\<bar>" "[1..<18]"]
  consider "?t = \<bar>x\<bar>" | "toDouble ?t = \<bar>x\<bar>" by blast
  then show ?thesis
  proof cases
    case 1
    then show ?thesis using False by (simp add: numberToString_def mult_sgn_abs)
  next
    case 2
    show ?thesis
    proof (cases "0 < x")
      case True
      with 2 show ?thesis by (simp add: numberToString_def)
    next
      case neg: False
      with False have "x < 0" by simp
      with 2 show ?thesis by (simp add: numberToString_def toDouble_minus)
    qed
  qed
qed

lemma numberToString_error: "\<bar>numberToString x - x\<bar> \<le> \<bar>x\<bar> / (2 ^ 53 - 1)"
proof -
  define t where "t = numberToString x"
  from numberToString_round_trip [of x] consider "t = x" | "toDouble t = x"
    unfolding t_def by blast
  then have "\<bar>t - x\<bar> \<le> \<bar>x\<bar> / (2 ^ 53 - 1)"
  proof cases
    case 1
    then show ?thesis by simp
  next
    case 2
    have err: "\<bar>x - t\<bar> \<le> \<bar>t\<bar> / 2 ^ 53" using toDouble_error [of t] 2 by simp
    have "\<bar>t\<bar> \<le> \<bar>x\<bar> + \<bar>x - t\<bar>" by linarith
    with err have "\<bar>t\<bar> * (2 ^ 53 - 1) \<le> \<bar>x\<bar> * 2 ^ 53" by (simp add: field_simps)
    with err have "\<bar>x - t\<bar> * (2 ^ 53 - 1) \<le> \<bar>x\<bar>" by (simp add: field_simps)
    then show ?thesis by (simp add: field_simps abs_minus_commute)
  qed
  then show ?thesis by (simp add: t_def)
qed

text \<open>A decimal within half a hundredth of a multiple of a hundredth is stored as that multiple.\<close>

lemma roundHalfAway_near:
  assumes "\<bar>t - of_int n / 100\<bar> < 1 / 200"
  shows "roundHalfAway t = of_int n / 100"
proof -
  have t: "of_int n - 1 / 2 < t * 100" "t * 100 < of_int n + 1 / 2"
    using assms by (simp_all add: abs_if field_simps split: if_splits)
  consider "0 < n" | "n = 0" | "n < 0" by linarith
  then show ?thesis
  proof cases
    case 1
    then have "(1 :: rat) \<le> of_int n" by simp
    with t have "0 < t" by (simp add: field_simps)
    moreover from this t have "\<lfloor>\<bar>t\<bar> * 100 + 1 / 2\<rfloor> = n" by (simp add: floor_unique)
    ultimately show ?thesis by (simp add: roundHalfAway_def)
  next
    case 2
    with t have "\<lfloor>\<bar>t\<bar> * 100 + 1 / 2\<rfloor> = 0" by (auto simp: abs_if intro!: floor_unique)
    with 2 show ?thesis by (simp add: roundHalfAway_def)
  next
    case 3
    then have "n \<le> - 1" by simp
    then have "(of_int n :: rat) \<le> of_int (- 1)" by (simp only: of_int_le_iff)
    with t have neg: "t < 0" by (simp add: field_simps)
    moreover from this t have "\<lfloor>\<bar>t\<bar> * 100 + 1 / 2\<rfloor> = - n" by (auto intro!: floor_unique)
    ultimately show ?thesis by (simp add: roundHalfAway_def)
  qed
qed

lemma abs_diff_upper: "\<bar>x - y\<bar> \<le> b \<Longrightarrow> x \<le> y + (b :: rat)"
  by (simp add: abs_le_iff)

lemma abs_diff_lower: "\<bar>x - y\<bar> \<le> b \<Longrightarrow> y - (b :: rat) \<le> x"
  by (simp add: abs_le_iff)

lemma toDouble_near:
  assumes "\<bar>x\<bar> \<le> 10 ^ 9"
  shows "\<bar>toDouble x - x\<bar> \<le> 10 ^ 9 / 2 ^ 53"
proof -
  have "\<bar>x\<bar> / 2 ^ 53 \<le> 10 ^ 9 / 2 ^ 53" using assms by (simp add: divide_right_mono)
  with toDouble_error [of x] show ?thesis by linarith
qed

lemma columnAmount_Given:
  assumes "columnAmount (Given x)"
  shows "x = of_int \<lfloor>x * 100\<rfloor> / 100" and "\<bar>x\<bar> < 10 ^ 8"
proof -
  from assms have eq: "of_int \<lfloor>x * 100\<rfloor> = x * 100" and bound: "\<bar>x\<bar> < 10 ^ 8"
    by (simp_all only: columnAmount_def optional.case)
  have "x = x * 100 / 100" by simp
  also have "\<dots> = of_int \<lfloor>x * 100\<rfloor> / 100" by (simp only: eq)
  finally show "x = of_int \<lfloor>x * 100\<rfloor> / 100" .
  show "\<bar>x\<bar> < 10 ^ 8" by (rule bound)
qed

lemma numberOrZero_near:
  assumes "columnAmount v"
  shows "\<bar>numberOrZero v - suppliedOrZero v\<bar> \<le> 10 ^ 9 / 2 ^ 53"
    and "\<bar>suppliedOrZero v\<bar> \<le> 10 ^ 8"
    and "suppliedOrZero v = of_int \<lfloor>suppliedOrZero v * 100\<rfloor> / 100"
proof -
  show "\<bar>numberOrZero v - suppliedOrZero v\<bar> \<le> 10 ^ 9 / 2 ^ 53"
  proof (cases v)
    case (Given x)
    with assms have "\<bar>x\<bar> \<le> 10 ^ 9" by (simp add: columnAmount_def)
    then show ?thesis using Given toDouble_near [of x]
      by (simp add: numberOrZero_def suppliedOrZero_def)
  qed (simp_all add: numberOrZero_def suppliedOrZero_def)
  show "\<bar>suppliedOrZero v\<bar> \<le> 10 ^ 8"
    using assms by (cases v) (simp_all add: columnAmount_def suppliedOrZero_def)
  show "suppliedOrZero v = of_int \<lfloor>suppliedOrZero v * 100\<rfloor> / 100"
  proof (cases v)
    case (Given x)
    with assms show ?thesis
      by (simp only: suppliedOrZero_def optional.case) (rule columnAmount_Given)
  qed (simp_all add: suppliedOrZero_def)
qed

text \<open>
  The total of four column amounts, as \<open>createShiftSales\<close> computes it and the column
  stores it: adding doubles and printing the result is off by less than a millionth, and
  the column rounds that away.
\<close>

lemma stored_total:
  assumes "columnAmount a" "columnAmount b" "columnAmount c" "columnAmount e"
  shows "roundHalfAway
           (numberToString
              (doublePlus (doublePlus (doublePlus (numberOrZero a) (numberOrZero b))
                                      (numberOrZero c))
                          (numberOrZero e)))
         = suppliedOrZero a + suppliedOrZero b + suppliedOrZero c + suppliedOrZero e"
proof -
  define \<delta> :: rat where "\<delta> = 10 ^ 9 / 2 ^ 53"
  define A B C E where "A = suppliedOrZero a" and "B = suppliedOrZero b"
    and "C = suppliedOrZero c" and "E = suppliedOrZero e"
  define pa pb pc pe where "pa = numberOrZero a" and "pb = numberOrZero b"
    and "pc = numberOrZero c" and "pe = numberOrZero e"
  define s1 where "s1 = toDouble (pa + pb)"
  define s2 where "s2 = toDouble (s1 + pc)"
  define s3 where "s3 = toDouble (s2 + pe)"
  define t where "t = numberToString s3"
  have small: "\<delta> \<le> 1 / 1000000" by (simp add: \<delta>_def)
  have pos: "0 \<le> \<delta>" by (simp add: \<delta>_def)
  note near = numberOrZero_near
  have ea: "\<bar>pa - A\<bar> \<le> \<delta>" "\<bar>A\<bar> \<le> 10 ^ 8"
    and eb: "\<bar>pb - B\<bar> \<le> \<delta>" "\<bar>B\<bar> \<le> 10 ^ 8"
    and ec: "\<bar>pc - C\<bar> \<le> \<delta>" "\<bar>C\<bar> \<le> 10 ^ 8"
    and ee: "\<bar>pe - E\<bar> \<le> \<delta>" "\<bar>E\<bar> \<le> 10 ^ 8"
    using near(1,2) [OF assms(1)] near(1,2) [OF assms(2)] near(1,2) [OF assms(3)]
      near(1,2) [OF assms(4)]
    by (simp_all add: \<delta>_def A_def B_def C_def E_def pa_def pb_def pc_def pe_def)
  note up = ea(1) [THEN abs_diff_upper] eb(1) [THEN abs_diff_upper] ec(1) [THEN abs_diff_upper]
    ee(1) [THEN abs_diff_upper]
  note lo = ea(1) [THEN abs_diff_lower] eb(1) [THEN abs_diff_lower] ec(1) [THEN abs_diff_lower]
    ee(1) [THEN abs_diff_lower]
  have mag: "A \<le> 10 ^ 8" "- (10 ^ 8) \<le> A" "B \<le> 10 ^ 8" "- (10 ^ 8) \<le> B"
    "C \<le> 10 ^ 8" "- (10 ^ 8) \<le> C" "E \<le> 10 ^ 8" "- (10 ^ 8) \<le> E"
    using ea(2) eb(2) ec(2) ee(2) by (simp_all add: abs_le_iff)
  have "pa + pb \<le> 10 ^ 9" "- (10 ^ 9) \<le> pa + pb" using up lo mag small by simp_all
  then have "\<bar>pa + pb\<bar> \<le> 10 ^ 9" by (simp add: abs_le_iff)
  then have e1: "\<bar>s1 - (pa + pb)\<bar> \<le> \<delta>" unfolding s1_def \<delta>_def by (rule toDouble_near)
  note up1 = e1 [THEN abs_diff_upper] and lo1 = e1 [THEN abs_diff_lower]
  have "s1 + pc \<le> 10 ^ 9" "- (10 ^ 9) \<le> s1 + pc" using up lo up1 lo1 mag small by simp_all
  then have "\<bar>s1 + pc\<bar> \<le> 10 ^ 9" by (simp add: abs_le_iff)
  then have e2: "\<bar>s2 - (s1 + pc)\<bar> \<le> \<delta>" unfolding s2_def \<delta>_def by (rule toDouble_near)
  note up2 = e2 [THEN abs_diff_upper] and lo2 = e2 [THEN abs_diff_lower]
  have "s2 + pe \<le> 10 ^ 9" "- (10 ^ 9) \<le> s2 + pe"
    using up lo up1 lo1 up2 lo2 mag small by simp_all
  then have "\<bar>s2 + pe\<bar> \<le> 10 ^ 9" by (simp add: abs_le_iff)
  then have e3: "\<bar>s3 - (s2 + pe)\<bar> \<le> \<delta>" unfolding s3_def \<delta>_def by (rule toDouble_near)
  note up3 = e3 [THEN abs_diff_upper] and lo3 = e3 [THEN abs_diff_lower]
  have "s3 \<le> 10 ^ 9" "- (10 ^ 9) \<le> s3"
    using up lo up1 lo1 up2 lo2 up3 lo3 mag small by simp_all
  then have s3_bound: "\<bar>s3\<bar> \<le> 10 ^ 9" by (simp add: abs_le_iff)
  have "\<bar>s3\<bar> / (2 ^ 53 - 1) \<le> 10 ^ 9 / (2 ^ 53 - 1)"
    using s3_bound by (simp add: divide_right_mono)
  then have e4: "\<bar>t - s3\<bar> \<le> 1 / 1000000"
    using numberToString_error [of s3] by (simp add: t_def)
  note up4 = e4 [THEN abs_diff_upper] and lo4 = e4 [THEN abs_diff_lower]
  have "t - (A + B + C + E) < 1 / 200" "- (1 / 200) < t - (A + B + C + E)"
    using up lo up1 lo1 up2 lo2 up3 lo3 up4 lo4 small by simp_all
  then have total: "\<bar>t - (A + B + C + E)\<bar> < 1 / 200" by linarith
  have "A + B + C + E
        = of_int (\<lfloor>A * 100\<rfloor> + \<lfloor>B * 100\<rfloor> + \<lfloor>C * 100\<rfloor> + \<lfloor>E * 100\<rfloor>) / 100"
    using near(3) [OF assms(1)] near(3) [OF assms(2)] near(3) [OF assms(3)] near(3) [OF assms(4)]
    unfolding A_def B_def C_def E_def by (simp add: add_divide_distrib)
  with total have "roundHalfAway t = A + B + C + E"
    using roundHalfAway_near
      [of t "\<lfloor>A * 100\<rfloor> + \<lfloor>B * 100\<rfloor> + \<lfloor>C * 100\<rfloor> + \<lfloor>E * 100\<rfloor>"] by simp
  then show ?thesis
    by (simp add: t_def s3_def s2_def s1_def pa_def pb_def pc_def pe_def A_def B_def C_def E_def
        doublePlus_def)
qed

lemma numericField_amount:
  assumes "columnAmount v"
  shows "numericField v = Inr (columnValue (Some 0) v)"
proof (cases v)
  case (Given x)
  with assms have x: "x = of_int \<lfloor>x * 100\<rfloor> / 100" "\<bar>x\<bar> < 10 ^ 8"
    by (simp_all only: columnAmount_Given)
  have "x - of_int \<lfloor>x * 100\<rfloor> / 100 = 0" using x(1) by (simp only: diff_self flip: x(1))
  then have "\<bar>x - of_int \<lfloor>x * 100\<rfloor> / 100\<bar> < 1 / 200" by (simp only: abs_zero) 
  then have "roundHalfAway x = of_int \<lfloor>x * 100\<rfloor> / 100" by (rule roundHalfAway_near)
  with x(1) have "roundHalfAway x = x" by (simp only:)
  with x(2) Given show ?thesis
    by (simp add: numericField_def numericColumn_def andThen_def columnValue_def)
qed (simp_all add: numericField_def columnValue_def)

lemma numericField_missing:
  "numericField Undefined = Inr (Some 0)" "numericField Null = Inr None"
  by (simp_all add: numericField_def)

lemma numericColumn_amount:
  assumes "columnAmount (Given x)"
  shows "numericColumn x = Inr x"
  using numericField_amount [OF assms]
  by (simp add: numericField_def andThen_def columnValue_def split: sum.splits)

lemma toDouble_zero: "toDouble 0 = 0"
  by (simp add: toDouble_def)

lemma numberToString_zero: "numberToString 0 = 0"
  by (simp add: numberToString_def)

lemma currentStockString_zero_state:
  assumes "latestStockEntry d tankId = []" and "dispensedRows d tankId (today clk) = []"
  shows "currentStockString clk d tankId = 0"
  using assms
  by (simp add: currentStockString_def first_def orElse_def orZero_def totalDispensed_def
      COALESCE_def toDouble_zero doublePlus_def doubleMinus_def numberToString_zero)

lemma currentStockString_agree:
  assumes agree: "agreeOnOutlet outlet d1 d2"
    and refs: "referencesWithinOutlet outlet d1" "referencesWithinOutlet outlet d2"
    and tank: "tankId \<in> set (outletTankIds d1 outlet)"
  shows "currentStockString clk d1 tankId = currentStockString clk d2 tankId"
proof -
  have tank2: "tankId \<in> set (outletTankIds d2 outlet)"
    using agree tank by (simp add: agreeOnOutlet_def outletTankIds_def)
  have "filter (\<lambda>e. se_tankId e = tankId) (stockEntries d1)
        = filter (\<lambda>e. se_tankId e = tankId) (stockEntries d2)"
    using agree by (simp add: tankEntries_scoped [OF refs(1) tank]
        tankEntries_scoped [OF refs(2) tank2] agreeOnOutlet_def)
  then have latest: "latestStockEntry d1 tankId = latestStockEntry d2 tankId"
    by (simp add: latestStockEntry_def)
  have "dispensedRows d1 tankId cutoff = dispensedRows d2 tankId cutoff" for cutoff
    using agree by (simp add: dispensedRows_scoped [OF refs(1) tank]
        dispensedRows_scoped [OF refs(2) tank2] agreeOnOutlet_def)
  then have "totalDispensed d1 tankId cutoff = totalDispensed d2 tankId cutoff" for cutoff
    by (simp add: totalDispensed_def)
  with latest show ?thesis by (simp add: currentStockString_def)
qed

text \<open>The doubles of the scenarios.\<close>

lemma tenths_in_doubles:
  "numberToString (max 0 (doubleMinus (doublePlus (toDouble oneTenth) (toDouble twoTenths))
                                       (toDouble 0)))
   = 30000000000000004 / 10 ^ 17"
  by code_simp

lemma thousandths_in_doubles:
  "numberToString
     (doublePlus (doublePlus (doublePlus (numberOrZero (Given fourThousandths))
                                         (numberOrZero (Given fourThousandths)))
                             (numberOrZero Undefined))
                 (numberOrZero Undefined))
   = 2 * fourThousandths"
  by code_simp

lemma thousandths_stored:
  "numericField (Given fourThousandths) = Inr (Some 0)"
  "numericField (Given (2 * fourThousandths)) = Inr (Some (1 / 100))"
  by code_simp+

lemmas insert_defs = createShiftSales_def insertShiftSalesRow_def createNozzleReading_def
  andThen_def columnValue_def numericField_missing salesOf_def storedSales_def Let_def
  scenario_defs

section \<open>The Date arithmetic\<close>

lemma nextDay_within_month:
  assumes "date_day dt + k \<le> daysInMonth (date_year dt) (date_month dt)"
  shows "(nextDay ^^ k) dt = dt \<lparr> date_day := date_day dt + k \<rparr>"
  using assms
proof (induction k)
  case 0
  then show ?case by simp
next
  case (Suc k)
  then have IH: "(nextDay ^^ k) dt = dt \<lparr> date_day := date_day dt + k \<rparr>" by simp
  have "(nextDay ^^ Suc k) dt = nextDay ((nextDay ^^ k) dt)" by simp
  also have "\<dots> = nextDay (dt \<lparr> date_day := date_day dt + k \<rparr>)" by (simp only: IH)
  also have "\<dots> = dt \<lparr> date_day := date_day dt + Suc k \<rparr>"
    using Suc.prems by (simp add: nextDay_def)
  finally show ?case .
qed

text \<open>
  \<open>setDate(getDate() - 7)\<close> after the seventh of a month is the day seven days before,
  and \<open>setMonth(getMonth() - 1)\<close> is the same day of the month before whenever that
  month has such a day.
\<close>

lemma week_ago_same_month:
  assumes "7 < date_day dt" "date_day dt \<le> daysInMonth (date_year dt) (date_month dt)"
  shows "setDate dt (int (date_day dt) - 7) = dt \<lparr> date_day := date_day dt - 7 \<rparr>"
proof -
  have k: "nat (int (date_day dt) - 8) = date_day dt - 8"
    "Suc (date_day dt - 8) = date_day dt - 7" using assms by simp_all
  have "(nextDay ^^ (date_day dt - 8)) (dt \<lparr> date_day := 1 \<rparr>)
      = dt \<lparr> date_day := 1 \<rparr> \<lparr> date_day := date_day (dt \<lparr> date_day := 1 \<rparr>) + (date_day dt - 8) \<rparr>"
    using assms by (intro nextDay_within_month) simp
  then show ?thesis using assms by (simp add: setDate_def k)
qed

lemma month_ago_same_day:
  assumes "0 < date_month dt" "date_month dt < 12" "1 \<le> date_day dt"
    and "date_day dt \<le> daysInMonth (date_year dt) (date_month dt - 1)"
  shows "setMonth dt (int (date_month dt) - 1) = dt \<lparr> date_month := date_month dt - 1 \<rparr>"
proof -
  let ?first = "dt \<lparr> date_month := date_month dt - 1, date_day := 1 \<rparr>"
  have m: "(int (date_month dt) - 1) div 12 = 0"
    "(int (date_month dt) - 1) mod 12 = int (date_month dt) - 1"
    "nat (int (date_month dt) - 1) = date_month dt - 1"
    using assms(1,2) by auto
  have "(nextDay ^^ (date_day dt - 1)) ?first
        = ?first \<lparr> date_day := date_day ?first + (date_day dt - 1) \<rparr>"
    using assms by (intro nextDay_within_month) simp
  then show ?thesis using assms by (simp add: setMonth_def m)
qed

lemma month_ago_january:
  assumes "date_month dt = 0" "1 \<le> date_day dt" "date_day dt \<le> 31" "0 < date_year dt"
  shows "setMonth dt (int (date_month dt) - 1)
         = dt \<lparr> date_year := date_year dt - 1, date_month := 11 \<rparr>"
proof -
  let ?first = "dt \<lparr> date_year := date_year dt - 1, date_month := 11, date_day := 1 \<rparr>"
  have "(nextDay ^^ (date_day dt - 1)) ?first
        = ?first \<lparr> date_day := date_day ?first + (date_day dt - 1) \<rparr>"
    using assms by (intro nextDay_within_month) (simp add: daysInMonth_def)
  moreover have "nat (int (date_year dt) + (- 1) div 12) = date_year dt - 1" using assms by simp
  ultimately show ?thesis using assms by (simp add: setMonth_def)
qed

section \<open>The claims\<close>

subsection \<open>C1: the reported current stock\<close>

text \<open>
  Claim C1 on a tank whose one stock entry has an opening stock of 0.10 and a receipt of
  0.20 litres, with no reading. The claim's value is \<open>max(0, 0.10 + 0.20 - 0) = 0.30\<close>,
  and that is \<open>tankCurrentStock\<close>, lines 253-256 in exact arithmetic. The program adds
  the doubles nearest to 0.10 and 0.20; their sum rounds to the double above the one
  nearest to 0.30, and the string returned for the tank is \<open>0.30000000000000004\<close>.
\<close>

theorem stock_sum_in_doubles:
  "map (\<lambda>e. (se_tankId e, se_openingStock e, se_receipt e)) (stockEntries floatDb)
     = [(''T'', 10 / 100, 20 / 100)]
   \<and> nozzleReadings floatDb = []
   \<and> tankCurrentStock scenarioClock floatDb ''T'' = 30 / 100
   \<and> currentStockString scenarioClock floatDb ''T'' = 30000000000000004 / 10 ^ 17"
proof -
  have "currentStockString scenarioClock floatDb ''T'' = 30000000000000004 / 10 ^ 17"
    unfolding tenths_in_doubles [symmetric]
    by (simp add: currentStockString_def floatDb_def scenario_defs latestStockEntry_def
        totalDispensed_def dispensedRows_def innerJoin_def orderBy_def first_def orElse_def
        orZero_def COALESCE_def)
  moreover have "tankCurrentStock scenarioClock floatDb ''T'' = 30 / 100"
    by (simp add: floatDb_def scenario_defs stock_defs oneTenth_def twoTenths_def)
  moreover have "map (\<lambda>e. (se_tankId e, se_openingStock e, se_receipt e)) (stockEntries floatDb)
     = [(''T'', 10 / 100, 20 / 100)]" "nozzleReadings floatDb = []"
    by (simp_all add: floatDb_def scenario_defs oneTenth_def twoTenths_def)
  ultimately show ?thesis by simp
qed
subsection \<open>C2: the reported current stock is never negative\<close>

text \<open>
  Claim C2. For every tank and every stored state the reported current stock is never
  negative: whenever the summed dispensed volume exceeds \<open>openingStock + receipt\<close>
  (zero when the tank has no stock entry), the result is exactly 0.
\<close>

theorem stock_never_negative:
  "\<forall>tw \<in> set (getTanksByRetailOutletId clk d outlet).
     0 \<le> currentStock tw
     \<and> (latestStockEntry d (tp_id tw) = []
          \<and> 0 < totalDispensed d (tp_id tw) (today clk) \<longrightarrow> currentStock tw = 0)
     \<and> (\<forall>e. latestStockEntry d (tp_id tw) = [e] \<and> se_shiftDate e \<noteq> []
          \<and> se_openingStock e + se_receipt e < totalDispensed d (tp_id tw) (se_shiftDate e)
          \<longrightarrow> currentStock tw = 0)"
proof (intro ballI conjI allI impI)
  fix tw
  assume tw: "tw \<in> set (getTanksByRetailOutletId clk d outlet)"
  then have stock: "currentStock tw = tankCurrentStock clk d (tp_id tw)"
    by (rule getTanks_stock)
  then show "0 \<le> currentStock tw" by (simp add: tankCurrentStock_nonneg)
  {
    assume "latestStockEntry d (tp_id tw) = [] \<and> 0 < totalDispensed d (tp_id tw) (today clk)"
    then show "currentStock tw = 0"
      using stock tankCurrentStock_no_entry [of d "tp_id tw" clk] by simp
  }
  {
    fix e
    assume "latestStockEntry d (tp_id tw) = [e] \<and> se_shiftDate e \<noteq> []
            \<and> se_openingStock e + se_receipt e < totalDispensed d (tp_id tw) (se_shiftDate e)"
    then show "currentStock tw = 0"
      using stock tankCurrentStock_entry [of d "tp_id tw" e clk] by simp
  }
qed

text \<open>Dispensed volume 2000 against 1500 available yields 0.\<close>

theorem stock_never_negative_scenario:
  "map currentStock (getTanksByRetailOutletId scenarioClock (scenarioDb excessReadings) ''O'') = [0]
   \<and> latestStockEntry (scenarioDb excessReadings) ''T'' = [entryE]
   \<and> totalDispensed (scenarioDb excessReadings) ''T'' (se_shiftDate entryE) = 2000
   \<and> se_openingStock entryE + se_receipt entryE = 1500"
proof -
  have "map currentStock (getTanksByRetailOutletId scenarioClock (scenarioDb excessReadings) ''O'') = [0]"
    by (simp add: scenario_defs excessReadings_def stock_defs)
  moreover have "latestStockEntry (scenarioDb excessReadings) ''T'' = [entryE]"
    by (simp add: scenario_defs latestStockEntry_def orderBy_def)
  moreover have "totalDispensed (scenarioDb excessReadings) ''T'' (se_shiftDate entryE) = 2000"
    by (simp add: scenario_defs excessReadings_def totalDispensed_def dispensedRows_def
        innerJoin_def COALESCE_def)
  moreover have "se_openingStock entryE + se_receipt entryE = 1500"
    by (simp add: entryE_def)
  ultimately show ?thesis
    using stock_never_negative [of scenarioClock "scenarioDb excessReadings" "''O''"] by blast
qed

subsection \<open>C3: the cutoff is inclusive\<close>



subsection \<open>C4: the groups partition the readings, and their totals are exact\<close>

text \<open>
  Claim C4. The operation groups the outlet's nozzle readings by the composite key
  \<open>(shiftDate, shiftType, attendantId)\<close>. No two produced groups share a key, so a
  reading contributes to at most one of them; each produced group has readings, and its
  cash, credit, upi, card and total sales are the sums of those fields (a missing payment
  counted as zero) over exactly the outlet's readings with the group's key; and unless
  \<open>limit\<close> cuts groups off, every reading of the outlet has its key among the produced
  groups. Staff ids are a primary key and every reading of the outlet references a stored
  staff row, as the schema declares.
\<close>

theorem shift_sales_partition:
  assumes pk: "distinct (map staff_id (staffs d))"
    and fk: "\<forall>r \<in> set (nozzleReadings d). nr_retailOutletId r = outlet
               \<longrightarrow> (\<exists>s \<in> set (staffs d). staff_id s = nr_attendantId r)"
  shows "distinct (map summaryKey (getShiftSalesByRetailOutletId clk d outlet limit))
       \<and> (\<forall>g \<in> set (getShiftSalesByRetailOutletId clk d outlet limit).
            readingsOfGroup d outlet (summaryKey g) \<noteq> []
            \<and> sum_cashSales g = missingAsZero nr_cashSales (readingsOfGroup d outlet (summaryKey g))
            \<and> sum_creditSales g = missingAsZero nr_creditSales (readingsOfGroup d outlet (summaryKey g))
            \<and> sum_upiSales g = missingAsZero nr_upiSales (readingsOfGroup d outlet (summaryKey g))
            \<and> sum_cardSales g = missingAsZero nr_cardSales (readingsOfGroup d outlet (summaryKey g))
            \<and> sum_totalSales g = sum_list (map nr_totalSale (readingsOfGroup d outlet (summaryKey g))))
       \<and> (length (remdups (map readingKey
              (filter (\<lambda>r. nr_retailOutletId r = outlet) (nozzleReadings d))))
            \<le> (case limit of None \<Rightarrow> 10 | Some n \<Rightarrow> n)
          \<longrightarrow> (\<forall>r \<in> set (nozzleReadings d). nr_retailOutletId r = outlet
                 \<longrightarrow> readingKey r \<in> summaryKey ` set (getShiftSalesByRetailOutletId clk d outlet limit)))"
proof (intro conjI ballI impI)
  show "distinct (map summaryKey (getShiftSalesByRetailOutletId clk d outlet limit))"
    using pk by (rule distinct_summary_keys)
next
  fix g
  assume "g \<in> set (getShiftSalesByRetailOutletId clk d outlet limit)"
  then obtain row0 where row0: "row0 \<in> set (readingsWithStaff d outlet)"
    and g: "g = toShiftSales clk outlet
                 (selectGroup (groupKey row0,
                    filter (\<lambda>row. groupKey row = groupKey row0) (readingsWithStaff d outlet)))"
    using summaries_from_rows by blast
  have key: "summaryKey g = readingKey (fst row0)"
    unfolding g by (rule summaryKey_toShiftSales)
  have rows: "map fst (filter (\<lambda>row. groupKey row = groupKey row0) (readingsWithStaff d outlet))
              = readingsOfGroup d outlet (summaryKey g)"
    unfolding key using pk fk row0 by (rule group_rows_readings)
  have "row0 \<in> set (filter (\<lambda>row. groupKey row = groupKey row0) (readingsWithStaff d outlet))"
    using row0 by simp
  then have "fst row0 \<in> set (readingsOfGroup d outlet (summaryKey g))"
    unfolding rows [symmetric] by (metis image_eqI set_map)
  then show "readingsOfGroup d outlet (summaryKey g) \<noteq> []" by auto
  show "sum_cashSales g = missingAsZero nr_cashSales (readingsOfGroup d outlet (summaryKey g))"
    unfolding rows [symmetric] by (simp only: g sums_toShiftSales)
  show "sum_creditSales g = missingAsZero nr_creditSales (readingsOfGroup d outlet (summaryKey g))"
    unfolding rows [symmetric] by (simp only: g sums_toShiftSales)
  show "sum_upiSales g = missingAsZero nr_upiSales (readingsOfGroup d outlet (summaryKey g))"
    unfolding rows [symmetric] by (simp only: g sums_toShiftSales)
  show "sum_cardSales g = missingAsZero nr_cardSales (readingsOfGroup d outlet (summaryKey g))"
    unfolding rows [symmetric] by (simp only: g sums_toShiftSales)
  show "sum_totalSales g = sum_list (map nr_totalSale (readingsOfGroup d outlet (summaryKey g)))"
    unfolding rows [symmetric] by (simp only: g sums_toShiftSales)
next
  fix r
  let ?n = "case limit of None \<Rightarrow> 10 | Some n \<Rightarrow> n"
  let ?rows = "readingsWithStaff d outlet"
  let ?le = "\<lambda>a b. sg_shiftDate b < sg_shiftDate a
                        \<or> (sg_shiftDate a = sg_shiftDate b \<and> sg_shiftType a \<le> sg_shiftType b)"
  assume few: "length (remdups (map readingKey
              (filter (\<lambda>r. nr_retailOutletId r = outlet) (nozzleReadings d)))) \<le> ?n"
    and r: "r \<in> set (nozzleReadings d)" "nr_retailOutletId r = outlet"
  from r fk obtain s where s: "s \<in> set (staffs d)" "staff_id s = nr_attendantId r" by blast
  with r have row: "(r, s) \<in> set ?rows" by (simp add: readingsWithStaff_member)
  have "length (orderBy ?le (map selectGroup (groupBy groupKey ?rows))) \<le> ?n"
    using few number_of_groups [OF pk fk] by (simp add: length_orderBy)
  then have "shiftGroups d outlet ?n = orderBy ?le (map selectGroup (groupBy groupKey ?rows))"
    by (simp add: shiftGroups_def)
  then have "set (shiftGroups d outlet ?n) = selectGroup ` set (groupBy groupKey ?rows)"
    by (simp add: set_orderBy)
  moreover have "(groupKey (r, s), filter (\<lambda>row. groupKey row = groupKey (r, s)) ?rows)
                 \<in> set (groupBy groupKey ?rows)"
    using row by (force simp: groupBy_def)
  ultimately have "toShiftSales clk outlet
                     (selectGroup (groupKey (r, s), filter (\<lambda>row. groupKey row = groupKey (r, s)) ?rows))
                   \<in> set (getShiftSalesByRetailOutletId clk d outlet limit)"
    by (simp add: getShiftSalesByRetailOutletId_def)
  then have "summaryKey (toShiftSales clk outlet
                     (selectGroup (groupKey (r, s), filter (\<lambda>row. groupKey row = groupKey (r, s)) ?rows)))
             \<in> summaryKey ` set (getShiftSalesByRetailOutletId clk d outlet limit)"
    by (rule imageI)
  then show "readingKey r \<in> summaryKey ` set (getShiftSalesByRetailOutletId clk d outlet limit)"
    by (simp add: summaryKey_toShiftSales)
qed

text \<open>
  Three groups from four readings of the outlet; the reading of another outlet with the
  same key as the morning group is not counted.
\<close>

theorem shift_sales_partition_example:
  "distinct (map staff_id (staffs salesDb))
   \<and> list_all (\<lambda>r. nr_retailOutletId r = ''O''
                  \<longrightarrow> list_ex (\<lambda>s. staff_id s = nr_attendantId r) (staffs salesDb))
        (nozzleReadings salesDb)
   \<and> map (\<lambda>g. (summaryKey g, sum_cashSales g, sum_upiSales g, sum_totalSales g))
        (getShiftSalesByRetailOutletId scenarioClock salesDb ''O'' None)
     = [((''2024-01-02'', ''evening'', ''B''), 20, 0, 20),
        ((''2024-01-02'', ''morning'', ''A''), 110, 80, 190),
        ((''2024-01-01'', ''night'', ''A''), 0, 7, 7)]
   \<and> map nr_id (readingsOfGroup salesDb ''O'' (''2024-01-02'', ''morning'', ''A'')) = [''R1'', ''R3'']
   \<and> map nr_id (readingsOfGroup salesDb ''O'' (''2024-01-02'', ''evening'', ''B'')) = [''R2'']
   \<and> map nr_id (readingsOfGroup salesDb ''O'' (''2024-01-01'', ''night'', ''A'')) = [''R4'']"
proof -
  have pk: "distinct (map staff_id (staffs salesDb))"
    by (simp add: salesDb_defs)
  have fk: "\<forall>r \<in> set (nozzleReadings salesDb). nr_retailOutletId r = ''O''
              \<longrightarrow> (\<exists>s \<in> set (staffs salesDb). staff_id s = nr_attendantId r)"
    by (simp add: salesDb_defs)
  have groups: "map (\<lambda>g. (summaryKey g, sum_cashSales g, sum_upiSales g, sum_totalSales g))
        (getShiftSalesByRetailOutletId scenarioClock salesDb ''O'' None)
     = [((''2024-01-02'', ''evening'', ''B''), 20, 0, 20),
        ((''2024-01-02'', ''morning'', ''A''), 110, 80, 190),
        ((''2024-01-01'', ''night'', ''A''), 0, 7, 7)]"
    by (simp add: sales_defs salesDb_defs summaryKey_def DATE_def)
  have members:
    "map nr_id (readingsOfGroup salesDb ''O'' (''2024-01-02'', ''morning'', ''A'')) = [''R1'', ''R3'']"
    "map nr_id (readingsOfGroup salesDb ''O'' (''2024-01-02'', ''evening'', ''B'')) = [''R2'']"
    "map nr_id (readingsOfGroup salesDb ''O'' (''2024-01-01'', ''night'', ''A'')) = [''R4'']"
    by (simp_all add: readingsOfGroup_def readingKey_def salesDb_defs)
  from pk fk groups members show ?thesis
    using shift_sales_partition [OF pk fk, of scenarioClock None]
    by (simp add: list_all_iff list_ex_iff)
qed


subsection \<open>C5: the sales statistics\<close>

text \<open>
  Each aggregate is the sum, a missing amount counted as zero, over the outlet's
  shift-sales rows from the start of its window on: \<open>weekAgo\<close> for the weekly sales,
  \<open>monthAgo\<close> for the monthly sales and for the four payment methods.
\<close>

lemma sales_stats_sums:
  "weeklySales (getShiftSalesStats clk d outlet)
     = missingAsZero ss_totalSales
         (filter (\<lambda>s. ss_retailOutletId s = outlet \<and> weekAgo clk \<le> ss_shiftDate s) (shiftSalesRows d))
   \<and> monthlySales (getShiftSalesStats clk d outlet)
     = missingAsZero ss_totalSales
         (filter (\<lambda>s. ss_retailOutletId s = outlet \<and> monthAgo clk \<le> ss_shiftDate s) (shiftSalesRows d))
   \<and> paymentBreakdown (getShiftSalesStats clk d outlet)
     = \<lparr> pm_cash = missingAsZero ss_cashSales
                 (filter (\<lambda>s. ss_retailOutletId s = outlet \<and> monthAgo clk \<le> ss_shiftDate s) (shiftSalesRows d)),
         pm_credit = missingAsZero ss_creditSales
                 (filter (\<lambda>s. ss_retailOutletId s = outlet \<and> monthAgo clk \<le> ss_shiftDate s) (shiftSalesRows d)),
         pm_upi = missingAsZero ss_upiSales
                 (filter (\<lambda>s. ss_retailOutletId s = outlet \<and> monthAgo clk \<le> ss_shiftDate s) (shiftSalesRows d)),
         pm_card = missingAsZero ss_cardSales
                 (filter (\<lambda>s. ss_retailOutletId s = outlet \<and> monthAgo clk \<le> ss_shiftDate s) (shiftSalesRows d)) \<rparr>"
  unfolding getShiftSalesStats_def Let_def shiftSalesSince_def orZero_sqlSum_field
  by (simp add: missingAsZero_def)

text \<open>
  On the scenario's clock, the third of January 2024, the week starts on 2023-12-27 and the
  month on 2023-12-03: 175 in the week, 195 in the month with its payment methods, and
  zeros for an outlet without rows.
\<close>

lemma sales_stats_example:
  "weekAgo scenarioClock = (''2023-12-27'', 0)
   \<and> monthAgo scenarioClock = (''2023-12-03'', 0)
   \<and> getShiftSalesStats scenarioClock statsDb ''O''
     = \<lparr> weeklySales = 175, monthlySales = 195,
         paymentBreakdown = \<lparr> pm_cash = 110, pm_credit = 50, pm_upi = 7, pm_card = 28 \<rparr> \<rparr>
   \<and> getShiftSalesStats scenarioClock statsDb ''nobody''
     = \<lparr> weeklySales = 0, monthlySales = 0,
         paymentBreakdown = \<lparr> pm_cash = 0, pm_credit = 0, pm_upi = 0, pm_card = 0 \<rparr> \<rparr>"
  by (simp add: stats_defs statsDb_def scenario_defs)

text \<open>
  Claim C5 on the last day of March. \<open>setMonth(getMonth() - 1)\<close> asks for the 31st of
  February, which is the third of March: the month of the statistics starts there, three
  days after the first of March and four weeks before now. The row of the first of March,
  30 days old, is in neither \<open>monthlySales\<close> nor the payment breakdown, which hold the
  row of the day before only. The week starts on the 24th as the claim says.
\<close>

theorem month_window_starts_late:
  "newDate marchClock
     = \<lparr> date_year = 2023, date_month = 2, date_day = 31, date_millis = 36000000 \<rparr>
   \<and> weekAgo marchClock = (''2023-03-24'', 36000000)
   \<and> monthAgo marchClock = (''2023-03-03'', 36000000)
   \<and> map (\<lambda>s. (ss_retailOutletId s, ss_shiftDate s, ss_cashSales s, ss_totalSales s))
         (shiftSalesRows marchDb)
     = [(''O'', (''2023-03-01'', 0), Some 100, Some 100),
        (''O'', (''2023-03-30'', 0), Some 50, Some 50)]
   \<and> getShiftSalesStats marchClock marchDb ''O''
     = \<lparr> weeklySales = 50, monthlySales = 50,
         paymentBreakdown = \<lparr> pm_cash = 50, pm_credit = 0, pm_upi = 0, pm_card = 0 \<rparr> \<rparr>"
  by (simp add: stats_defs marchClock_def marchDb_def scenario_defs)

subsection \<open>C6: the fallback of the product rates\<close>

text \<open>
  The first lookup on the sample date input: both spellings of the date select the
  morning shift created that day, whose rates are the empty list, and a string the store
  does not read as a date raises.
\<close>

lemma specific_shift_example:
  "specificShift sampleDateInput ratesDb ''M'' (Some ''2024-01-02'') (Some ''morning'')
     = Inr [shiftSubmitted]
   \<and> specificShift sampleDateInput ratesDb ''M'' (Some ''2024-1-2'') (Some ''morning'')
     = Inr [shiftSubmitted]
   \<and> getLastProductRates sampleDateInput ratesDb ''M'' (Some ''2024-1-2'') (Some ''morning'')
     = Inr []
   \<and> getLastProductRates sampleDateInput ratesDb ''M'' (Some ''second of January'') (Some ''morning'')
     = Inl InvalidDatetimeFormat"
  by (simp add: rates_defs)

text \<open>
  Claim C6 says that the first non-empty rates list of the three lookups is returned.
  Manager M has a morning shift whose rates are the column default \<open>[]\<close>, as
  \<open>submitShiftData\<close> inserts a shift, and an evening shift with one rate that was
  updated later. Asked for the rates of the morning shift, with no date, the second lookup
  selects the morning shift; \<open>recentShiftOfType?.productRates\<close> is true of its empty
  list, so the empty list is returned and the third lookup, which selects the evening
  shift with its rate, is never made.
\<close>

theorem empty_rates_end_the_lookup:
  "getLastProductRates dateInput ratesDb ''M'' None (Some ''morning'') = Inr []
   \<and> specificShift dateInput ratesDb ''M'' None (Some ''morning'') = Inr []
   \<and> recentShiftOfType ratesDb ''M'' (Some ''morning'') = [shiftSubmitted]
   \<and> shift_productRates shiftSubmitted = Some []
   \<and> latestShift ratesDb ''M'' = [shiftWithRates]
   \<and> shift_productRates shiftWithRates = Some [rateP]"
  by (simp add: rates_defs)

subsection \<open>C7: tanks that are absent or inactive, and the zero state\<close>

text \<open>
  Claim C7 says that the operation fails with a NotFound error when the referenced tank
  does not exist or is inactive. The operation takes an outlet, not a tank, and has no
  error of its own: on a state whose only tank is inactive it returns the empty list, and
  the route answers with that list.
\<close>

theorem no_tank_not_found_counterexample:
  "map tank_id (tanks inactiveTankDb) = [''T'']
   \<and> map tank_isActive (tanks inactiveTankDb) = [Some False]
   \<and> getTanksByRetailOutletId scenarioClock inactiveTankDb ''O'' = []
   \<and> getApiTanks scenarioClock inactiveTankDb ''U1'' = Inr []"
  by (simp add: inactiveTankDb_def scenario_defs stock_defs getApiTanks_def
      getRetailOutletByOwnerId_def)

text \<open>
  Claim C7, as the code has it. The reported tanks are the stored, active tanks of the
  outlet: every reported tank is one of them, and every stored active tank of the outlet
  whose product exists is reported. So a tank that does not exist or is not active is left
  out of the result and raises nothing; the only NotFound of the route is for a user who
  owns no outlet, otherwise the route answers with the list. A reported tank with no stock
  entries and no readings on its nozzles carries a current stock of exactly 0, in exact
  arithmetic and as the string that the doubles of the program give.
\<close>

theorem inactive_tanks_omitted:
  "(\<forall>tw \<in> set (getTanksByRetailOutletId clk d outlet).
      \<exists>t \<in> set (tanks d). tank_id t = tp_id tw \<and> tank_retailOutletId t = outlet
                           \<and> tank_isActive t = Some True)
   \<and> (\<forall>t \<in> set (tanks d).
        tank_retailOutletId t = outlet \<and> tank_isActive t = Some True
        \<and> (\<exists>p \<in> set (products d). product_id p = tank_productId t)
        \<longrightarrow> (\<exists>tw \<in> set (getTanksByRetailOutletId clk d outlet). tp_id tw = tank_id t))
   \<and> (case getRetailOutletByOwnerId d userId of
        None \<Rightarrow> getApiTanks clk d userId = Inl (HttpError 404 ''Retail outlet not found'')
      | Some ro \<Rightarrow> getApiTanks clk d userId = Inr (getTanksByRetailOutletId clk d (outlet_id ro)))
   \<and> (\<forall>tw \<in> set (getTanksByRetailOutletId clk d outlet).
        (\<forall>e \<in> set (stockEntries d). se_tankId e \<noteq> tp_id tw)
        \<and> readingsOnTank d (tp_id tw) = []
        \<longrightarrow> currentStock tw = 0 \<and> currentStockString clk d (tp_id tw) = 0)"
proof (intro conjI ballI impI)
  fix tw
  assume "tw \<in> set (getTanksByRetailOutletId clk d outlet)"
  then obtain tp where "tp \<in> set (tanksWithProduct d outlet)" "tp_id tw = tp_id tp"
    by (auto simp: in_getTanks extend_sel)
  then show "\<exists>t \<in> set (tanks d). tank_id t = tp_id tw \<and> tank_retailOutletId t = outlet
                           \<and> tank_isActive t = Some True"
    by (auto simp: set_tanksWithProduct tp_id_selectTank)
next
  fix t
  assume t: "t \<in> set (tanks d)"
    and "tank_retailOutletId t = outlet \<and> tank_isActive t = Some True
         \<and> (\<exists>p \<in> set (products d). product_id p = tank_productId t)"
  then obtain p where "p \<in> set (products d)" "product_id p = tank_productId t"
    "tank_retailOutletId t = outlet" "tank_isActive t = Some True" by auto
  with t show "\<exists>tw \<in> set (getTanksByRetailOutletId clk d outlet). tp_id tw = tank_id t"
    by (intro active_tank_reported)
next
  show "case getRetailOutletByOwnerId d userId of
        None \<Rightarrow> getApiTanks clk d userId = Inl (HttpError 404 ''Retail outlet not found'')
      | Some ro \<Rightarrow> getApiTanks clk d userId = Inr (getTanksByRetailOutletId clk d (outlet_id ro))"
    by (simp add: getApiTanks_def split: option.split)
next
  fix tw
  assume tw: "tw \<in> set (getTanksByRetailOutletId clk d outlet)"
    and none: "(\<forall>e \<in> set (stockEntries d). se_tankId e \<noteq> tp_id tw)
               \<and> readingsOnTank d (tp_id tw) = []"
  have latest: "latestStockEntry d (tp_id tw) = []"
    using none latestStockEntry_cases [of d "tp_id tw"] by (auto simp: isLatestEntry_def)
  then have "tankCurrentStock clk d (tp_id tw)
             = max 0 (0 + 0 - totalDispensed d (tp_id tw) (today clk))"
    by (rule tankCurrentStock_no_entry)
  moreover have "totalDispensed d (tp_id tw) (today clk) = 0"
    using none by (simp add: totalDispensed_def dispensedRows_empty COALESCE_def)
  ultimately show "currentStock tw = 0"
    using getTanks_stock [OF tw] by simp
  show "currentStockString clk d (tp_id tw) = 0"
    using latest none by (intro currentStockString_zero_state dispensedRows_empty) simp_all
qed

text \<open>
  The zero state: the scenario's one tank is active, has no stock entry and no reading,
  and is reported with stock 0.
\<close>

theorem inactive_tanks_omitted_zero_state:
  "map tank_id (tanks emptyTankDb) = [''T'']
   \<and> map tank_isActive (tanks emptyTankDb) = [Some True]
   \<and> map tp_id (getTanksByRetailOutletId scenarioClock emptyTankDb ''O'') = [''T'']
   \<and> map currentStock (getTanksByRetailOutletId scenarioClock emptyTankDb ''O'') = [0]
   \<and> currentStockString scenarioClock emptyTankDb ''T'' = 0
   \<and> stockEntries emptyTankDb = []
   \<and> readingsOnTank emptyTankDb ''T'' = []
   \<and> getApiTanks scenarioClock emptyTankDb ''U1''
       = Inr (getTanksByRetailOutletId scenarioClock emptyTankDb ''O'')
   \<and> getApiTanks scenarioClock emptyTankDb ''nobody'' = Inl (HttpError 404 ''Retail outlet not found'')"
proof -
  have ids: "map tp_id (getTanksByRetailOutletId scenarioClock emptyTankDb ''O'') = [''T'']"
    by (simp add: emptyTankDb_def scenario_defs stock_defs)
  have none: "stockEntries emptyTankDb = []" "readingsOnTank emptyTankDb ''T'' = []"
    by (simp_all add: emptyTankDb_def scenario_defs readingsOnTank_def)
  have owner: "getRetailOutletByOwnerId emptyTankDb ''U1''
               = Some \<lparr> outlet_id = ''O'', outlet_ownerId = ''U1'', outlet_name = ''Outlet'' \<rparr>"
    "getRetailOutletByOwnerId emptyTankDb ''nobody'' = None"
    by (simp_all add: emptyTankDb_def scenario_defs getRetailOutletByOwnerId_def)
  note inst = inactive_tanks_omitted [of scenarioClock emptyTankDb "''O''"]
  from inst [of "''U1''"] have a: "getApiTanks scenarioClock emptyTankDb ''U1''
       = Inr (getTanksByRetailOutletId scenarioClock emptyTankDb ''O'')"
    by (simp add: owner)
  from inst [of "''nobody''"] have b: "getApiTanks scenarioClock emptyTankDb ''nobody''
       = Inl (HttpError 404 ''Retail outlet not found'')"
    by (simp add: owner)
  have zero: "map currentStock (getTanksByRetailOutletId scenarioClock emptyTankDb ''O'') = [0]"
    by (simp add: emptyTankDb_def scenario_defs stock_defs)
  have stored: "map tank_id (tanks emptyTankDb) = [''T'']"
    "map tank_isActive (tanks emptyTankDb) = [Some True]"
    by (simp_all add: emptyTankDb_def scenario_defs)
  have "''T'' \<in> set (map tp_id (getTanksByRetailOutletId scenarioClock emptyTankDb ''O''))"
    using ids by simp
  then obtain tw where tw: "tw \<in> set (getTanksByRetailOutletId scenarioClock emptyTankDb ''O'')"
    "tp_id tw = ''T''" by auto
  from inst [of "''U1''"] tw none
  have string: "currentStockString scenarioClock emptyTankDb ''T'' = 0" by auto
  show ?thesis using ids none a b zero stored string by simp
qed


subsection \<open>C8: what the results of an outlet depend on\<close>

text \<open>
  Claim C8 says that two stored states that agree on every record carrying the outlet's
  id give the same results, and that the dispensed volume of a tank counts no reading owned
  by another outlet. The stock reconciliation reaches the readings of a tank through the
  nozzle's \<open>tankId\<close> and never looks at the reading's own \<open>retailOutletId\<close>: a
  reading that carries another outlet's id and is entered on a nozzle of the outlet's tank
  is summed, and the reported stock falls from 1200 to 1150, although both states hold the
  same records of the outlet.
\<close>

theorem foreign_reading_counterexample:
  "agreeOnOutlet ''O'' (scenarioDb scenarioReadings) leakDb
   \<and> map currentStock (getTanksByRetailOutletId scenarioClock (scenarioDb scenarioReadings) ''O'')
     = [1200]
   \<and> map currentStock (getTanksByRetailOutletId scenarioClock leakDb ''O'') = [1150]
   \<and> map (\<lambda>row. (nr_id (fst row), nr_retailOutletId (fst row)))
        (dispensedRows leakDb ''T'' ''2024-01-01'')
     = [(''R1'', ''O''), (''R2'', ''O''), (''R9'', ''other'')]"
proof -
  have "agreeOnOutlet ''O'' (scenarioDb scenarioReadings) leakDb"
    by (simp add: agreeOnOutlet_def outletTankIds_def tenant_defs)
  moreover have "map currentStock (getTanksByRetailOutletId scenarioClock (scenarioDb scenarioReadings) ''O'')
     = [1200]"
    by (simp add: tenant_defs stock_defs)
  moreover have "map currentStock (getTanksByRetailOutletId scenarioClock leakDb ''O'') = [1150]"
    by (simp add: tenant_defs stock_defs)
  moreover have "map (\<lambda>row. (nr_id (fst row), nr_retailOutletId (fst row)))
        (dispensedRows leakDb ''T'' ''2024-01-01'')
     = [(''R1'', ''O''), (''R2'', ''O''), (''R9'', ''other'')]"
    by (simp add: tenant_defs dispensedRows_def innerJoin_def)
  ultimately show ?thesis by simp
qed


text \<open>
  Claim C8, as the code has it. The stock reconciliation reads the outlet's tanks with
  their products and, through \<open>tankId\<close>, the stock entries, the nozzles and the nozzle
  readings attached to those tanks; the sales aggregation reads the readings that carry the
  outlet's id with their attendants; the statistics read the shift-sales rows that carry
  the outlet's id. Two stored states that agree on every record carrying the outlet's id
  and on the nozzles of the outlet's tanks, and in each of which the records attached to
  the outlet's records belong to the outlet, give identical results for all three, and the
  same string for the stock of each tank of the outlet in the doubles of the program.
\<close>

theorem tenant_scoped:
  assumes agree: "agreeOnOutlet outlet d1 d2"
    and refs: "referencesWithinOutlet outlet d1" "referencesWithinOutlet outlet d2"
  shows "getTanksByRetailOutletId clk d1 outlet = getTanksByRetailOutletId clk d2 outlet
       \<and> getShiftSalesByRetailOutletId clk d1 outlet limit
         = getShiftSalesByRetailOutletId clk d2 outlet limit
       \<and> getShiftSalesStats clk d1 outlet = getShiftSalesStats clk d2 outlet
       \<and> map (\<lambda>tw. currentStockString clk d1 (tp_id tw)) (getTanksByRetailOutletId clk d1 outlet)
         = map (\<lambda>tw. currentStockString clk d2 (tp_id tw)) (getTanksByRetailOutletId clk d2 outlet)"
proof -
  have tanks_same: "getTanksByRetailOutletId clk d1 outlet = getTanksByRetailOutletId clk d2 outlet"
    and sales_same: "getShiftSalesByRetailOutletId clk d1 outlet limit
         = getShiftSalesByRetailOutletId clk d2 outlet limit"
    and stats_same: "getShiftSalesStats clk d1 outlet = getShiftSalesStats clk d2 outlet"
  proof -
  have tanks_eq: "tanksWithProduct d1 outlet = tanksWithProduct d2 outlet"
    using agree by (simp add: tanksWithProduct_scoped [OF refs(1)]
        tanksWithProduct_scoped [OF refs(2)] agreeOnOutlet_def)
  have "map (\<lambda>tank. tankWithProduct.extend tank
                       \<lparr> currentStock = tankCurrentStock clk d1 (tp_id tank) \<rparr>)
          (tanksWithProduct d1 outlet)
        = map (\<lambda>tank. tankWithProduct.extend tank
                       \<lparr> currentStock = tankCurrentStock clk d2 (tp_id tank) \<rparr>)
          (tanksWithProduct d1 outlet)"
    using tankCurrentStock_agree [OF agree refs] tanksWithProduct_ids [of _ d1 outlet]
    by (intro map_cong) auto
  then show "getTanksByRetailOutletId clk d1 outlet = getTanksByRetailOutletId clk d2 outlet"
    by (simp add: getTanksByRetailOutletId_def tanks_eq)
next
  have "readingsWithStaff d1 outlet = readingsWithStaff d2 outlet"
    using agree by (simp add: readingsWithStaff_scoped [OF refs(1)]
        readingsWithStaff_scoped [OF refs(2)] agreeOnOutlet_def)
  then show "getShiftSalesByRetailOutletId clk d1 outlet limit
             = getShiftSalesByRetailOutletId clk d2 outlet limit"
    by (simp add: getShiftSalesByRetailOutletId_def shiftGroups_def)
next
  have "shiftSalesSince d1 outlet since = shiftSalesSince d2 outlet since" for since
    using agree by (simp add: shiftSalesSince_scoped agreeOnOutlet_def)
  then show "getShiftSalesStats clk d1 outlet = getShiftSalesStats clk d2 outlet"
    by (simp add: getShiftSalesStats_def)
  qed
  have "tp_id tw \<in> set (outletTankIds d1 outlet)"
    if "tw \<in> set (getTanksByRetailOutletId clk d1 outlet)" for tw
    using that tanksWithProduct_ids [of _ d1 outlet] by (auto simp: in_getTanks extend_sel)
  then have "map (\<lambda>tw. currentStockString clk d1 (tp_id tw)) (getTanksByRetailOutletId clk d1 outlet)
        = map (\<lambda>tw. currentStockString clk d2 (tp_id tw)) (getTanksByRetailOutletId clk d1 outlet)"
    using currentStockString_agree [OF agree refs] by (intro map_cong) auto
  with tanks_same sales_same stats_same show ?thesis by simp
qed


text \<open>
  The scenario, and the scenario beside a second outlet with a tank, its product, nozzle
  and stock entry, an attendant, a reading of 900 litres and a shift-sales row of its own:
  the tanks, the shift summaries and the statistics of outlet O are the same in both.
\<close>

theorem tenant_scoped_example:
  "agreeOnOutlet ''O'' ownDb otherOutletDb
   \<and> referencesWithinOutlet ''O'' ownDb
   \<and> referencesWithinOutlet ''O'' otherOutletDb
   \<and> map nozzle_id (nozzles ownDb) = [''N'']
   \<and> map nozzle_id (nozzles otherOutletDb) = [''NX'', ''N'']
   \<and> map tank_id (tanks otherOutletDb) = [''X'', ''T'']
   \<and> length (nozzleReadings ownDb) = 2 \<and> length (nozzleReadings otherOutletDb) = 3
   \<and> getTanksByRetailOutletId scenarioClock ownDb ''O''
     = getTanksByRetailOutletId scenarioClock otherOutletDb ''O''
   \<and> map currentStock (getTanksByRetailOutletId scenarioClock otherOutletDb ''O'') = [1200]
   \<and> getShiftSalesStats scenarioClock ownDb ''O''
     = getShiftSalesStats scenarioClock otherOutletDb ''O''
   \<and> weeklySales (getShiftSalesStats scenarioClock otherOutletDb ''O'') = 175"
proof -
  have agree: "agreeOnOutlet ''O'' ownDb otherOutletDb"
    by (simp add: agreeOnOutlet_def outletTankIds_def tenant_defs)
  have refs1: "referencesWithinOutlet ''O'' ownDb"
    by (simp add: referencesWithinOutlet_def outletTankIds_def tenant_defs)
  have refs2: "referencesWithinOutlet ''O'' otherOutletDb"
    by (simp add: referencesWithinOutlet_def outletTankIds_def tenant_defs)
  have sizes: "length (nozzleReadings ownDb) = 2" "length (nozzleReadings otherOutletDb) = 3"
    "map nozzle_id (nozzles ownDb) = [''N'']"
    "map nozzle_id (nozzles otherOutletDb) = [''NX'', ''N'']"
    "map tank_id (tanks otherOutletDb) = [''X'', ''T'']"
    by (simp_all add: tenant_defs)
  have stock: "map currentStock (getTanksByRetailOutletId scenarioClock ownDb ''O'') = [1200]"
    by (simp add: tenant_defs stock_defs)
  have week: "weeklySales (getShiftSalesStats scenarioClock ownDb ''O'') = 175"
    by (simp add: tenant_defs stats_defs)
  from tenant_scoped [OF agree refs1 refs2, of scenarioClock]
  have "getTanksByRetailOutletId scenarioClock ownDb ''O''
        = getTanksByRetailOutletId scenarioClock otherOutletDb ''O''"
    and "getShiftSalesStats scenarioClock ownDb ''O''
        = getShiftSalesStats scenarioClock otherOutletDb ''O''"
    by blast+
  with agree refs1 refs2 sizes stock week show ?thesis by simp
qed

subsection \<open>C9: order, limit and the nominal window\<close>

text \<open>
  Claim C9. The produced sequence is ordered by shift date descending and then by shift
  type; it holds the first \<open>limit\<close> groups of that order (all of them when there are
  fewer), with \<open>limit\<close> 10 when the argument is left out; and every summary carries the
  window from 06:00 to 18:00 on its shift date.
\<close>

theorem shift_sales_order_and_limit:
  "sorted_wrt summaryOrder (getShiftSalesByRetailOutletId clk d outlet limit)
   \<and> length (getShiftSalesByRetailOutletId clk d outlet (Some n)) \<le> n
   \<and> length (getShiftSalesByRetailOutletId clk d outlet (Some n))
     = min n (length (groupBy groupKey (readingsWithStaff d outlet)))
   \<and> getShiftSalesByRetailOutletId clk d outlet None
     = getShiftSalesByRetailOutletId clk d outlet (Some 10)
   \<and> (n \<le> m \<longrightarrow> getShiftSalesByRetailOutletId clk d outlet (Some n)
                  = take n (getShiftSalesByRetailOutletId clk d outlet (Some m)))
   \<and> (\<forall>g \<in> set (getShiftSalesByRetailOutletId clk d outlet limit).
        sum_shiftDate g = atTime (DATE (sum_shiftDate g)) 0
        \<and> sum_startTime g = atTime (DATE (sum_shiftDate g)) 6
        \<and> sum_endTime g = atTime (DATE (sum_shiftDate g)) 18)"
proof (intro conjI impI ballI)
  show "sorted_wrt summaryOrder (getShiftSalesByRetailOutletId clk d outlet limit)"
    unfolding getShiftSalesByRetailOutletId_def sorted_wrt_map summaryOrder_toShiftSales
    by (rule sorted_shiftGroups)
  show "length (getShiftSalesByRetailOutletId clk d outlet (Some n)) \<le> n"
    by (simp add: getShiftSalesByRetailOutletId_def shiftGroups_def)
  show "length (getShiftSalesByRetailOutletId clk d outlet (Some n))
        = min n (length (groupBy groupKey (readingsWithStaff d outlet)))"
    by (simp add: getShiftSalesByRetailOutletId_def shiftGroups_def length_orderBy min.commute)
  show "getShiftSalesByRetailOutletId clk d outlet None
        = getShiftSalesByRetailOutletId clk d outlet (Some 10)"
    by (simp add: getShiftSalesByRetailOutletId_def)
next
  assume "n \<le> m"
  then show "getShiftSalesByRetailOutletId clk d outlet (Some n)
             = take n (getShiftSalesByRetailOutletId clk d outlet (Some m))"
    by (simp add: getShiftSalesByRetailOutletId_def shiftGroups_def take_map min_def)
next
  fix g
  assume "g \<in> set (getShiftSalesByRetailOutletId clk d outlet limit)"
  then obtain sg where "g = toShiftSales clk outlet sg"
    by (auto simp: getShiftSalesByRetailOutletId_def)
  then show "sum_shiftDate g = atTime (DATE (sum_shiftDate g)) 0"
    "sum_startTime g = atTime (DATE (sum_shiftDate g)) 6"
    "sum_endTime g = atTime (DATE (sum_shiftDate g)) 18"
    by (simp_all add: toShiftSales_def atTime_def DATE_def)
qed

text \<open>
  The three groups of the example in their order, each with its window from 06:00 to
  18:00; a limit of 2 keeps the two of 2024-01-02.
\<close>

theorem shift_sales_order_and_limit_example:
  "map (\<lambda>g. (sum_id g, sum_startTime g, sum_endTime g))
     (getShiftSalesByRetailOutletId scenarioClock salesDb ''O'' None)
   = [(''2024-01-02-evening-B'', (''2024-01-02'', 21600000), (''2024-01-02'', 64800000)),
      (''2024-01-02-morning-A'', (''2024-01-02'', 21600000), (''2024-01-02'', 64800000)),
      (''2024-01-01-night-A'', (''2024-01-01'', 21600000), (''2024-01-01'', 64800000))]
   \<and> map sum_id (getShiftSalesByRetailOutletId scenarioClock salesDb ''O'' (Some 2))
     = [''2024-01-02-evening-B'', ''2024-01-02-morning-A'']
   \<and> (2::nat) \<le> 10"
proof -
  have full: "map (\<lambda>g. (sum_id g, sum_startTime g, sum_endTime g))
     (getShiftSalesByRetailOutletId scenarioClock salesDb ''O'' None)
   = [(''2024-01-02-evening-B'', (''2024-01-02'', 21600000), (''2024-01-02'', 64800000)),
      (''2024-01-02-morning-A'', (''2024-01-02'', 21600000), (''2024-01-02'', 64800000)),
      (''2024-01-01-night-A'', (''2024-01-01'', 21600000), (''2024-01-01'', 64800000))]"
    by (simp add: sales_defs salesDb_defs)
  then have ids: "map sum_id (getShiftSalesByRetailOutletId scenarioClock salesDb ''O'' None)
      = [''2024-01-02-evening-B'', ''2024-01-02-morning-A'', ''2024-01-01-night-A'']"
    by (simp add: map_eq_Cons_conv) auto
  have le: "(2::nat) \<le> 10" by simp
  from shift_sales_order_and_limit [of scenarioClock salesDb "''O''" None 2 10]
  have "getShiftSalesByRetailOutletId scenarioClock salesDb ''O'' (Some 2)
        = take 2 (getShiftSalesByRetailOutletId scenarioClock salesDb ''O'' None)"
    using le by simp
  then have "map sum_id (getShiftSalesByRetailOutletId scenarioClock salesDb ''O'' (Some 2))
     = take 2 (map sum_id (getShiftSalesByRetailOutletId scenarioClock salesDb ''O'' None))"
    by (simp add: take_map)
  with ids full show ?thesis by simp
qed

subsection \<open>C10: createShiftSales recomputes the total\<close>

text \<open>
  Claim C10 says that the stored \<open>totalSales\<close> equals the sum of the supplied payments.
  The payments arrive as decimal strings of any length and the columns are
  \<open>numeric(10,2)\<close>: for payments of 0.004 and 0.004 the sum of the supplied amounts is
  0.008, the string of the computed total is \<open>0.008\<close>, and the row is stored with a
  total of 0.01 beside payments of 0.00.
\<close>

theorem rounded_total_counterexample:
  "createShiftSales ''S9'' scenarioClock (scenarioDb []) tinySales
     = Inr (storedSales (Some 0) (Some 0) (Some 0) (Some 0) (Some (1 / 100)),
            (scenarioDb []) \<lparr> shiftSalesRows :=
               [storedSales (Some 0) (Some 0) (Some 0) (Some 0) (Some (1 / 100))] \<rparr>)
   \<and> iss_cashSales tinySales = Given (4 / 1000)
   \<and> iss_creditSales tinySales = Given (4 / 1000)
   \<and> suppliedTotal tinySales = 8 / 1000"
proof -
  have "createShiftSales ''S9'' scenarioClock (scenarioDb []) tinySales
     = Inr (storedSales (Some 0) (Some 0) (Some 0) (Some 0) (Some (1 / 100)),
            (scenarioDb []) \<lparr> shiftSalesRows :=
               [storedSales (Some 0) (Some 0) (Some 0) (Some 0) (Some (1 / 100))] \<rparr>)"
    unfolding createShiftSales_def tinySales_def salesOf_def Let_def insertShiftSales.simps
      thousandths_in_doubles
    by (simp add: insertShiftSalesRow_def thousandths_stored andThen_def columnValue_def
        storedSales_def scenario_defs numericField_missing Let_def)
  moreover have "iss_cashSales tinySales = Given (4 / 1000)"
    "iss_creditSales tinySales = Given (4 / 1000)" "suppliedTotal tinySales = 8 / 1000"
    by (simp_all add: tinySales_def salesOf_def fourThousandths_def suppliedTotal_def
        suppliedOrZero_def)
  ultimately show ?thesis by simp
qed

text \<open>
  Claim C10, as the code has it. When the supplied cash, credit, upi and card sales are
  amounts of the columns (at most two decimals, below \<open>10^8\<close> in magnitude; a missing one
  counted as 0) and the outlet and the staff member exist, the inserted row carries their
  exact sum as \<open>totalSales\<close> and the payments as supplied, and the new state is the old
  one with that row; when the sum does not fit the column the insert raises and nothing is
  stored. The \<open>totalSales\<close> the caller supplied plays no part, for any payments. A row
  inserted by \<open>createNozzleReading\<close> carries the supplied \<open>totalSale\<close>, as the
  column stores it, whatever the payments.
\<close>

theorem createShiftSales_recomputes_total:
  assumes amounts: "columnAmount (iss_cashSales sales)" "columnAmount (iss_creditSales sales)"
      "columnAmount (iss_upiSales sales)" "columnAmount (iss_cardSales sales)"
    and refs: "iss_retailOutletId sales \<in> set (map outlet_id (retailOutlets d))"
      "iss_staffId sales \<in> set (map staff_id (staffs d))"
  shows "(if \<bar>suppliedTotal sales\<bar> < 10 ^ 8
          then \<exists>row. createShiftSales newId clk d (sales \<lparr> iss_totalSales := supplied \<rparr>)
                       = Inr (row, d \<lparr> shiftSalesRows := shiftSalesRows d @ [row] \<rparr>)
                     \<and> ss_totalSales row = Some (suppliedTotal sales)
                     \<and> ss_cashSales row = columnValue (Some 0) (iss_cashSales sales)
                     \<and> ss_creditSales row = columnValue (Some 0) (iss_creditSales sales)
                     \<and> ss_upiSales row = columnValue (Some 0) (iss_upiSales sales)
                     \<and> ss_cardSales row = columnValue (Some 0) (iss_cardSales sales)
          else createShiftSales newId clk d (sales \<lparr> iss_totalSales := supplied \<rparr>)
                 = Inl NumericFieldOverflow)
       \<and> createShiftSales newId clk d (anySales \<lparr> iss_totalSales := supplied \<rparr>)
         = createShiftSales newId clk d anySales
       \<and> (\<forall>row d'. createNozzleReading newId clk d reading = Inr (row, d')
             \<longrightarrow> numericColumn (inr_totalSale reading) = Inr (nr_totalSale row))"
proof (intro conjI)
  define total where "total = numberToString
     (doublePlus (doublePlus (doublePlus (numberOrZero (iss_cashSales sales))
                                         (numberOrZero (iss_creditSales sales)))
                             (numberOrZero (iss_upiSales sales)))
                 (numberOrZero (iss_cardSales sales)))"
  have stored: "roundHalfAway total = suppliedTotal sales"
    unfolding total_def suppliedTotal_def using amounts by (rule stored_total)
  have fields: "numericField (iss_cashSales sales) = Inr (columnValue (Some 0) (iss_cashSales sales))"
    "numericField (iss_creditSales sales) = Inr (columnValue (Some 0) (iss_creditSales sales))"
    "numericField (iss_upiSales sales) = Inr (columnValue (Some 0) (iss_upiSales sales))"
    "numericField (iss_cardSales sales) = Inr (columnValue (Some 0) (iss_cardSales sales))"
    using amounts by (simp_all add: numericField_amount)
  have run: "createShiftSales newId clk d (sales \<lparr> iss_totalSales := supplied \<rparr>)
             = insertShiftSalesRow newId clk d (sales \<lparr> iss_totalSales := Given total \<rparr>)"
    by (simp add: createShiftSales_def total_def)
  show "if \<bar>suppliedTotal sales\<bar> < 10 ^ 8
        then \<exists>row. createShiftSales newId clk d (sales \<lparr> iss_totalSales := supplied \<rparr>)
                     = Inr (row, d \<lparr> shiftSalesRows := shiftSalesRows d @ [row] \<rparr>)
                   \<and> ss_totalSales row = Some (suppliedTotal sales)
                   \<and> ss_cashSales row = columnValue (Some 0) (iss_cashSales sales)
                   \<and> ss_creditSales row = columnValue (Some 0) (iss_creditSales sales)
                   \<and> ss_upiSales row = columnValue (Some 0) (iss_upiSales sales)
                   \<and> ss_cardSales row = columnValue (Some 0) (iss_cardSales sales)
        else createShiftSales newId clk d (sales \<lparr> iss_totalSales := supplied \<rparr>)
               = Inl NumericFieldOverflow"
  proof (cases "\<bar>suppliedTotal sales\<bar> < 10 ^ 8")
    case True
    then have "numericField (Given total) = Inr (Some (suppliedTotal sales))"
      by (simp add: numericField_def numericColumn_def andThen_def stored)
    with True refs fields show ?thesis
      unfolding run by (simp add: insertShiftSalesRow_def andThen_def Let_def)
  next
    case False
    then have "numericField (Given total) = Inl NumericFieldOverflow"
      by (simp add: numericField_def numericColumn_def andThen_def stored)
    with False fields show ?thesis
      unfolding run by (simp add: insertShiftSalesRow_def andThen_def)
  qed
next
  show "createShiftSales newId clk d (anySales \<lparr> iss_totalSales := supplied \<rparr>)
        = createShiftSales newId clk d anySales"
    by (simp add: createShiftSales_def)
next
  show "\<forall>row d'. createNozzleReading newId clk d reading = Inr (row, d')
          \<longrightarrow> numericColumn (inr_totalSale reading) = Inr (nr_totalSale row)"
    by (auto simp: createNozzleReading_def andThen_def Let_def split: sum.splits if_splits)
qed

text \<open>
  A caller's total of 999 against payments of 10 and 5: 15 is stored for the shift sales,
  999 for the nozzle reading. Four payments of 99999999.99 raise, and the stored state is
  not returned.
\<close>

theorem createShiftSales_recomputes_total_example:
  "columnAmount (iss_cashSales inconsistentSales) \<and> columnAmount (iss_creditSales inconsistentSales)
   \<and> columnAmount (iss_upiSales inconsistentSales) \<and> columnAmount (iss_cardSales inconsistentSales)
   \<and> iss_retailOutletId inconsistentSales \<in> set (map outlet_id (retailOutlets (scenarioDb [])))
   \<and> iss_staffId inconsistentSales \<in> set (map staff_id (staffs (scenarioDb [])))
   \<and> iss_totalSales inconsistentSales = Given 999
   \<and> suppliedTotal inconsistentSales = 15
   \<and> (\<exists>row. createShiftSales ''S9'' scenarioClock (scenarioDb []) inconsistentSales
               = Inr (row, (scenarioDb []) \<lparr> shiftSalesRows := [row] \<rparr>)
             \<and> ss_totalSales row = Some 15 \<and> ss_cashSales row = Some 10
             \<and> ss_creditSales row = None \<and> ss_upiSales row = Some 0
             \<and> ss_cardSales row = Some 5)
   \<and> suppliedTotal hugeSales = 39999999996 / 100
   \<and> createShiftSales ''S9'' scenarioClock (scenarioDb []) hugeSales = Inl NumericFieldOverflow
   \<and> inr_totalSale inconsistentReading = 999
   \<and> (\<exists>row d'. createNozzleReading ''R9'' scenarioClock (scenarioDb []) inconsistentReading
                  = Inr (row, d')
                \<and> nr_totalSale row = 999 \<and> nr_cashSales row = Some 10
                \<and> nr_cardSales row = Some 5)"
proof -
  have amounts: "columnAmount (iss_cashSales inconsistentSales)"
    "columnAmount (iss_creditSales inconsistentSales)"
    "columnAmount (iss_upiSales inconsistentSales)"
    "columnAmount (iss_cardSales inconsistentSales)"
    by (simp_all add: inconsistentSales_def salesOf_def columnAmount_def)
  have refs: "iss_retailOutletId inconsistentSales \<in> set (map outlet_id (retailOutlets (scenarioDb [])))"
    "iss_staffId inconsistentSales \<in> set (map staff_id (staffs (scenarioDb [])))"
    by (simp_all add: inconsistentSales_def salesOf_def scenario_defs)
  have total: "iss_totalSales inconsistentSales = Given 999"
    "inconsistentSales \<lparr> iss_totalSales := Given 999 \<rparr> = inconsistentSales"
    by (simp_all add: inconsistentSales_def salesOf_def)
  have sum: "suppliedTotal inconsistentSales = 15"
    by (simp add: inconsistentSales_def salesOf_def suppliedTotal_def suppliedOrZero_def)
  have columns: "columnValue (Some 0) (iss_cashSales inconsistentSales) = Some 10"
    "columnValue (Some 0) (iss_creditSales inconsistentSales) = None"
    "columnValue (Some 0) (iss_upiSales inconsistentSales) = Some 0"
    "columnValue (Some 0) (iss_cardSales inconsistentSales) = Some 5"
    by (simp_all add: inconsistentSales_def salesOf_def columnValue_def)
  from createShiftSales_recomputes_total
    [OF amounts refs, of "''S9''" scenarioClock "Given 999", THEN conjunct1]
  have stored: "\<exists>row. createShiftSales ''S9'' scenarioClock (scenarioDb []) inconsistentSales
               = Inr (row, (scenarioDb []) \<lparr> shiftSalesRows := [row] \<rparr>)
             \<and> ss_totalSales row = Some 15 \<and> ss_cashSales row = Some 10
             \<and> ss_creditSales row = None \<and> ss_upiSales row = Some 0
             \<and> ss_cardSales row = Some 5"
    unfolding total(2) sum columns by (simp add: scenarioDb_def)
  have huge_amounts: "columnAmount (iss_cashSales hugeSales)"
    "columnAmount (iss_creditSales hugeSales)" "columnAmount (iss_upiSales hugeSales)"
    "columnAmount (iss_cardSales hugeSales)"
    by (simp_all add: hugeSales_def salesOf_def columnAmount_def)
  have huge_refs: "iss_retailOutletId hugeSales \<in> set (map outlet_id (retailOutlets (scenarioDb [])))"
    "iss_staffId hugeSales \<in> set (map staff_id (staffs (scenarioDb [])))"
    by (simp_all add: hugeSales_def salesOf_def scenario_defs)
  have huge_sum: "suppliedTotal hugeSales = 39999999996 / 100"
    by (simp add: hugeSales_def salesOf_def suppliedTotal_def suppliedOrZero_def)
  have huge_same: "hugeSales \<lparr> iss_totalSales := Undefined \<rparr> = hugeSales"
    by (simp add: hugeSales_def salesOf_def)
  from createShiftSales_recomputes_total
    [OF huge_amounts huge_refs, of "''S9''" scenarioClock Undefined, THEN conjunct1]
  have huge: "createShiftSales ''S9'' scenarioClock (scenarioDb []) hugeSales
              = Inl NumericFieldOverflow"
    unfolding huge_same huge_sum by simp
  have "numericColumn 999 = Inr 999" "numericColumn 10 = Inr 10" "numericColumn 0 = Inr 0"
    "numericColumn 5 = Inr 5"
    by (rule numericColumn_amount, simp add: columnAmount_def)+
  then have reading: "\<exists>row d'. createNozzleReading ''R9'' scenarioClock (scenarioDb []) inconsistentReading
                  = Inr (row, d')
                \<and> nr_totalSale row = 999 \<and> nr_cashSales row = Some 10
                \<and> nr_cardSales row = Some 5"
    by (simp add: inconsistentReading_def insert_defs numericField_def)
  have "inr_totalSale inconsistentReading = 999" by (simp add: inconsistentReading_def)
  with amounts refs total(1) sum stored huge_sum huge reading show ?thesis by simp
qed

end
